theory Spec2Isabelle
  imports Complex_Main "HOL-Library.Monad_Syntax"
begin

section \<open>Numbers and vectors\<close>

text \<open>
  JavaScript numbers and GLSL floats are idealised as real numbers: a sum, a product, \<open>sin\<close>,
  \<open>floor\<close> and \<open>sqrt\<close> are the exact operations. GLSL vectors are tuples, with the component-wise
  operations the shaders use written out.
\<close>

type_synonym vec2 = "real \<times> real"
type_synonym vec3 = "real \<times> real \<times> real"
type_synonym vec4 = "real \<times> real \<times> real \<times> real"

definition dot2 :: "vec2 \<Rightarrow> vec2 \<Rightarrow> real" where
  "dot2 a b = fst a * fst b + snd a * snd b"

definition add2 :: "vec2 \<Rightarrow> vec2 \<Rightarrow> vec2" where
  "add2 a b = (fst a + fst b, snd a + snd b)"

definition sub2 :: "vec2 \<Rightarrow> vec2 \<Rightarrow> vec2" where
  "sub2 a b = (fst a - fst b, snd a - snd b)"

definition scale2 :: "vec2 \<Rightarrow> real \<Rightarrow> vec2" where
  "scale2 a k = (fst a * k, snd a * k)"

definition div2 :: "vec2 \<Rightarrow> real \<Rightarrow> vec2" where
  "div2 a k = (fst a / k, snd a / k)"

definition floor2 :: "vec2 \<Rightarrow> vec2" where
  "floor2 a = (of_int \<lfloor>fst a\<rfloor>, of_int \<lfloor>snd a\<rfloor>)"

definition length2 :: "vec2 \<Rightarrow> real" where
  "length2 a = sqrt (dot2 a a)"

text \<open>GLSL \<open>fract(x) = x - floor(x)\<close>, \<open>clamp\<close> and \<open>mix\<close>.\<close>

definition fract :: "real \<Rightarrow> real" where
  "fract x = x - of_int \<lfloor>x\<rfloor>"

definition clamp :: "real \<Rightarrow> real \<Rightarrow> real \<Rightarrow> real" where
  "clamp x lo hi = min (max x lo) hi"

definition mix :: "real \<Rightarrow> real \<Rightarrow> real \<Rightarrow> real" where
  "mix a b t = a * (1 - t) + b * t"

section \<open>Instance layout: \<open>utils.ts\<close>\<close>

text \<open>\<open>seededRandom\<close>: \<open>x = Math.sin(seed) * 10000; return x - Math.floor(x)\<close>.\<close>

definition seededRandom :: "real \<Rightarrow> real" where
  "seededRandom seed = (let x = sin seed * 10000 in x - of_int \<lfloor>x\<rfloor>)"

text \<open>
  The body of both double loops, for the grid cell \<open>(x, z)\<close> of a grid of side \<open>g\<close> spanning
  \<open>p\<close> world units (\<open>GRID_SIZE\<close> and \<open>PATCH_SIZE\<close>): the seed, the two jitters and the position.
\<close>

definition jitterSeed :: "nat \<Rightarrow> nat \<Rightarrow> real" where
  "jitterSeed x z = (real x * 7919 + real z * 7919) * 0.0001"

definition jitterX :: "nat \<Rightarrow> nat \<Rightarrow> real" where
  "jitterX x z = (seededRandom (jitterSeed x z) - 0.5) * 0.2"

definition jitterZ :: "nat \<Rightarrow> nat \<Rightarrow> real" where
  "jitterZ x z = (seededRandom (jitterSeed x z + 1.0) - 0.5) * 0.2"

definition bladePx :: "nat \<Rightarrow> real \<Rightarrow> nat \<Rightarrow> nat \<Rightarrow> real" where
  "bladePx g p x z = (real x / real g - 0.5) * p + jitterX x z"

definition bladePz :: "nat \<Rightarrow> real \<Rightarrow> nat \<Rightarrow> nat \<Rightarrow> real" where
  "bladePz g p x z = (real z / real g - 0.5) * p + jitterZ x z"

text \<open>
  \<open>createGrassGeometry\<close>. The grid side \<open>g\<close> and the patch size \<open>p\<close> stand for the constants
  \<open>GRID_SIZE\<close> and \<open>PATCH_SIZE\<close> (256 and 8 in \<open>constants.ts\<close>), and \<open>g * g\<close> for \<open>GRASS_BLADES\<close>.
  The state of the loops is the two typed arrays and their cursors \<open>i\<close> (the field
  \<open>iOff\<close>) and \<open>idIdx\<close>; a typed
  array ignores a write past its end, as \<open>xs[k := v]\<close> does. The inner loop runs over the
  remaining values of \<open>z\<close> and stops at the \<open>break\<close>.
\<close>

record geomState =
  offsets :: "real list"
  instanceIds :: "real list"
  iOff :: nat
  idIdx :: nat

definition geometryBody :: "nat \<Rightarrow> real \<Rightarrow> nat \<Rightarrow> nat \<Rightarrow> geomState \<Rightarrow> geomState" where
  "geometryBody g p x z st =
     (let px = bladePx g p x z;
          pz = bladePz g p x z;
          o1 = (offsets st)[iOff st := px];
          o2 = o1[iOff st + 1 := 0];
          o3 = o2[iOff st + 2 := pz]
      in \<lparr>offsets = o3, instanceIds = (instanceIds st)[idIdx st := real (x * g + z)],
          iOff = iOff st + 3, idIdx = idIdx st + 1\<rparr>)"

fun geometryInner :: "nat \<Rightarrow> real \<Rightarrow> nat \<Rightarrow> nat list \<Rightarrow> geomState \<Rightarrow> geomState" where
  "geometryInner g p x [] st = st"
| "geometryInner g p x (z # zs) st =
     (if x * g + z \<ge> g * g then st
      else geometryInner g p x zs (geometryBody g p x z st))"

definition createGrassGeometry :: "nat \<Rightarrow> real \<Rightarrow> geomState" where
  "createGrassGeometry g p =
     fold (\<lambda>x st. geometryInner g p x [0..<g] st) [0..<g]
       \<lparr>offsets = replicate (g * g * 3) 0, instanceIds = replicate (g * g) 0, iOff = 0, idIdx = 0\<rparr>"

text \<open>The attribute \<open>instanceOffset\<close> of instance \<open>k\<close>: three consecutive floats of \<open>offsets\<close>.\<close>

definition instanceOffsetAttr :: "geomState \<Rightarrow> nat \<Rightarrow> vec3" where
  "instanceOffsetAttr geo k = (offsets geo ! (3 * k), offsets geo ! (3 * k + 1), offsets geo ! (3 * k + 2))"

text \<open>
  \<open>createPositionTexture\<close>: the same double loop writes four floats a texel and has no
  \<open>break\<close>. The state is the array \<open>data\<close> and its cursor \<open>idx\<close>.
\<close>

definition textureBody :: "nat \<Rightarrow> real \<Rightarrow> nat \<Rightarrow> nat \<Rightarrow> real list \<times> nat \<Rightarrow> real list \<times> nat" where
  "textureBody g p x z st =
     (let (data, idx) = st;
          px = bladePx g p x z;
          pz = bladePz g p x z;
          d1 = data[idx := px];
          d2 = d1[idx + 1 := 0];
          d3 = d2[idx + 2 := pz];
          d4 = d3[idx + 3 := 0]
      in (d4, idx + 4))"

definition createPositionTexture :: "nat \<Rightarrow> real \<Rightarrow> real list" where
  "createPositionTexture g p =
     fst (fold (\<lambda>x st. fold (\<lambda>z st'. textureBody g p x z st') [0..<g] st) [0..<g]
            (replicate (g * g * 4) 0, 0))"

section \<open>Texel addressing: \<open>grassVertex.glsl\<close>\<close>

text \<open>
  GLSL \<open>mod(x, y) = x - y * floor(x / y)\<close>, and lines 72 to 79 of \<open>main\<close>: the texture
  coordinate of an instance id and the integer texel it is floored to.
\<close>

definition glsl_mod :: "real \<Rightarrow> real \<Rightarrow> real" where
  "glsl_mod x y = x - y * of_int \<lfloor>x / y\<rfloor>"

definition texelCoord :: "real \<Rightarrow> vec2 \<Rightarrow> int \<times> int" where
  "texelCoord ident texSize =
     (let texCoord = (glsl_mod ident (fst texSize) / fst texSize, of_int \<lfloor>ident / fst texSize\<rfloor> / snd texSize)
      in (\<lfloor>fst texCoord * fst texSize\<rfloor>, \<lfloor>snd texCoord * snd texSize\<rfloor>))"

text \<open>
  A \<open>DataTexture\<close> of width \<open>w\<close> and height \<open>h\<close> in RGBA format keeps texel \<open>(ix, iy)\<close> in the
  four floats from \<open>4 * (iy * w + ix)\<close> on; a fetch outside the texture has no defined result.
\<close>

definition texelFetch :: "real list \<Rightarrow> nat \<Rightarrow> nat \<Rightarrow> int \<times> int \<Rightarrow> vec4 option" where
  "texelFetch data w h c =
     (let (ix, iy) = c
      in if 0 \<le> ix \<and> ix < int w \<and> 0 \<le> iy \<and> iy < int h
         then (let k = 4 * (nat iy * w + nat ix)
               in Some (data ! k, data ! (k + 1), data ! (k + 2), data ! (k + 3)))
         else None)"

section \<open>Clump locator: the compute shader of \<open>Grass.tsx\<close>\<close>

definition hash11 :: "real \<Rightarrow> real" where
  "hash11 x = fract (sin (x * 37.0) * 43758.5453123)"

definition hash21 :: "vec2 \<Rightarrow> vec2" where
  "hash21 p = (let h1 = hash11 (dot2 p (127.1, 311.7));
                   h2 = hash11 (dot2 p (269.5, 183.3))
               in (h1, h2))"

definition hash2 :: "vec2 \<Rightarrow> vec2" where
  "hash2 p = (let x = dot2 p (127.1, 311.7);
                  y = dot2 p (269.5, 183.3)
              in (fract (sin x * 43758.5453), fract (sin y * 43758.5453)))"

text \<open>
  \<open>getClumpInfo\<close>. The body of the two loops is \<open>clumpStep\<close>, on the state
  \<open>(minDist, bestCellId)\<close>; \<open>j\<close> is the outer and \<open>i\<close> the inner loop variable, both running over
  \<open>-1, 0, 1\<close>. The result is \<open>(distToCenter, bestCellId.x, bestCellId.y)\<close>.
\<close>

definition clumpStep :: "vec2 \<Rightarrow> vec2 \<Rightarrow> int \<Rightarrow> int \<Rightarrow> real \<times> vec2 \<Rightarrow> real \<times> vec2" where
  "clumpStep cell baseCell j i st =
     (let (minDist, bestCellId) = st;
          neighborCell = add2 baseCell (of_int i, of_int j);
          seed = hash2 neighborCell;
          seedCoord = add2 neighborCell seed;
          diff = sub2 cell seedCoord;
          d2 = dot2 diff diff
      in if d2 < minDist then (d2, neighborCell) else (minDist, bestCellId))"

definition getClumpInfo :: "real \<Rightarrow> vec2 \<Rightarrow> vec3" where
  "getClumpInfo clumpSize worldXZ =
     (let cell = div2 worldXZ clumpSize;
          baseCell = floor2 cell;
          (minDist, bestCellId) =
             fold (\<lambda>j st. fold (\<lambda>i st'. clumpStep cell baseCell j i st') [-1, 0, 1] st) [-1, 0, 1]
               (1000000000, (0, 0));
          distToCenter = sqrt minDist * clumpSize
      in (distToCenter, fst bestCellId, snd bestCellId))"

text \<open>
  For the statements: the seed point of a cell, the squared distance of a position (in cell
  units) to it, and the nine cells the loops visit, in the order they visit them.
\<close>

definition seedPoint :: "vec2 \<Rightarrow> vec2" where
  "seedPoint n = add2 n (hash2 n)"

definition seedDist2 :: "vec2 \<Rightarrow> vec2 \<Rightarrow> real" where
  "seedDist2 cell n = dot2 (sub2 cell (seedPoint n)) (sub2 cell (seedPoint n))"

definition neighborOffsets :: "(int \<times> int) list" where
  "neighborOffsets = [(-1, -1), (-1, 0), (-1, 1), (0, -1), (0, 0), (0, 1), (1, -1), (1, 0), (1, 1)]"

definition clumpCandidates :: "vec2 \<Rightarrow> vec2 list" where
  "clumpCandidates baseCell =
     map (\<lambda>(j, i). add2 baseCell (of_int i, of_int j)) neighborOffsets"

text \<open>A step that keeps the first strict minimum of \<open>f\<close>, as the loop body does.\<close>

definition minStep :: "('a \<Rightarrow> real) \<Rightarrow> 'a \<Rightarrow> real \<times> 'a \<Rightarrow> real \<times> 'a" where
  "minStep f c st = (if f c < fst st then (f c, c) else st)"

section \<open>Presence: the compute shader of \<open>Grass.tsx\<close>\<close>

text \<open>
  Lines 123 to 127 of the compute shader's \<open>main\<close>: \<open>r\<close>, the hand-written smoothstep between
  0.7 and 1.0, and the presence.
\<close>

definition presence :: "real \<Rightarrow> real \<Rightarrow> real" where
  "presence clumpRadius distToCenter =
     (let r = clamp (distToCenter / clumpRadius) 0.0 1.0;
          t = clamp ((r - 0.7) / (1.0 - 0.7)) 0.0 1.0;
          smoothstepVal = t * t * (3.0 - 2.0 * t)
      in 1.0 - smoothstepVal)"

section \<open>Parameter synthesis: the compute shader of \<open>Grass.tsx\<close>\<close>

text \<open>
  GLSL \<open>atan(y, x)\<close>, the angle of the point \<open>(x, y)\<close> in \<open>(-pi, pi]\<close>. GLSL leaves the result
  at \<open>x = y = 0\<close> unspecified; it is 0 here.
\<close>

definition atan2 :: "real \<Rightarrow> real \<Rightarrow> real" where
  "atan2 y x =
     (if 0 < x then arctan (y / x)
      else if x < 0 then (if 0 \<le> y then arctan (y / x) + pi else arctan (y / x) - pi)
      else if 0 < y then pi / 2
      else if y < 0 then - pi / 2
      else 0)"

text \<open>
  The uniforms of the compute shader, and \<open>getClumpParams\<close> and \<open>getGrassParams\<close>. The sampler
  \<open>uPositions\<close> is the function from a texture coordinate to the sampled texel.
\<close>

record computeUniforms =
  uResolution :: vec2
  bladeHeight :: real
  bladeWidth :: real
  bendAmount :: real
  clumpSize :: real
  clumpRadius :: real

definition getClumpParams :: "computeUniforms \<Rightarrow> vec2 \<Rightarrow> vec4" where
  "getClumpParams u cellId =
     (let c1 = hash21 (scale2 cellId 11.0);
          c2 = hash21 (scale2 cellId 23.0);
          clumpBaseHeight = bladeHeight u * (0.8 + fst c1 * 0.4);
          clumpBaseWidth = bladeWidth u * (0.6 + snd c1 * 0.8);
          clumpBaseBend = bendAmount u * (0.7 + fst c2 * 0.5);
          clumpType = of_int \<lfloor>snd c2 * 3.0\<rfloor>
      in (clumpBaseHeight, clumpBaseWidth, clumpBaseBend, clumpType))"

definition getGrassParams :: "vec2 \<Rightarrow> vec4 \<Rightarrow> vec4" where
  "getGrassParams seed clumpParams =
     (let (cx, cy, cz, cw) = clumpParams;
          h1 = hash21 (scale2 seed 13.0);
          h2 = hash21 (scale2 seed 29.0);
          height = cx * (0.6 + fst h1 * 0.6);
          width = cy * (0.6 + snd h1 * 0.6);
          bend = cz * (0.8 + fst h2 * 0.4);
          type = cw
      in (height, width, bend, type))"

text \<open>
  Lines 119 to 121 of \<open>main\<close>, the guarded direction to the clump centre, and lines 132 to
  138, the base angle.
\<close>

definition toCenterDir :: "vec2 \<Rightarrow> vec2" where
  "toCenterDir dir = (let len = length2 dir in if len > 1 / 100000 then div2 dir len else (1.0, 0.0))"

definition baseAngleOf :: "vec2 \<Rightarrow> vec2 \<Rightarrow> vec2 \<Rightarrow> real" where
  "baseAngleOf worldXZ cellId toCenter =
     (let clumpDir = toCenter;
          clumpAngle = atan2 (snd clumpDir) (fst clumpDir);
          perBladeHash = hash11 (dot2 worldXZ (37.0, 17.0));
          randomOffset = (perBladeHash - 0.5) * 1.2;
          clumpYaw = (hash11 (dot2 cellId (9.7, 3.1)) - 0.5) * 0.25
      in clumpAngle + randomOffset + clumpYaw)"

text \<open>
  \<open>main\<close>, for the fragment at \<open>gl_FragCoord.xy = fragCoord\<close>. The result is the pair
  \<open>(fragColor0, fragColor1)\<close>: the blade parameters and
  \<open>(toCenter.x, toCenter.y, presence, baseAngle)\<close>.
\<close>

definition computeMain :: "computeUniforms \<Rightarrow> (vec2 \<Rightarrow> vec4) \<Rightarrow> vec2 \<Rightarrow> vec4 \<times> vec4" where
  "computeMain u uPositions fragCoord =
     (let uv = (fst fragCoord / fst (uResolution u), snd fragCoord / snd (uResolution u));
          (posX, posY, posZ, posW) = uPositions uv;
          worldXZ = (posX, posZ);
          clumpInfo = getClumpInfo (clumpSize u) worldXZ;
          distToCenter = fst clumpInfo;
          cellId = snd clumpInfo;
          clumpSeed = hash2 cellId;
          clumpCenterWorld = scale2 (add2 cellId clumpSeed) (clumpSize u);
          dir = sub2 clumpCenterWorld worldXZ;
          toCenter = toCenterDir dir;
          pres = presence (clumpRadius u) distToCenter;
          clumpParams = getClumpParams u cellId;
          bladeParams = getGrassParams worldXZ clumpParams;
          baseAngle = baseAngleOf worldXZ cellId toCenter
      in (bladeParams, (fst toCenter, snd toCenter, pres, baseAngle)))"

text \<open>
The \<open>xz\<close> swizzle of a texel.
\<close>

definition texelXZ :: "vec4 \<Rightarrow> vec2" where
  "texelXZ v = (let (x, y, z, w) = v in (x, z))"

section \<open>Blade parameters: \<open>createGrassCompute\<close>\<close>

text \<open>
  The body of \<open>computeFn\<close>. The clump base values (lines 58 to 65) depend on \<open>cellId\<close>, the
  per-blade variation (lines 68 to 76) on \<open>seed\<close>; the source sets both to the blade's own
  \<open>worldXZ\<close> (``using worldXZ as cellId for now''). The result is
  \<open>(bladeHeight, bladeWidth, bladeBend, bladeType)\<close>.
\<close>

record grassComputeUniforms =
  uBladeHeightMin :: real
  uBladeHeightMax :: real
  uBladeWidthMin :: real
  uBladeWidthMax :: real
  uBendAmountMin :: real
  uBendAmountMax :: real
  uBladeRandomness :: vec3

definition clumpBaseParams :: "grassComputeUniforms \<Rightarrow> vec2 \<Rightarrow> vec4" where
  "clumpBaseParams u cellId =
     (let c1 = hash21 (scale2 cellId 11.0);
          c2 = hash21 (scale2 cellId 23.0);
          clumpBaseHeight = mix (uBladeHeightMin u) (uBladeHeightMax u) (fst c1);
          clumpBaseWidth = mix (uBladeWidthMin u) (uBladeWidthMax u) (snd c1);
          clumpBaseBend = mix (uBendAmountMin u) (uBendAmountMax u) (fst c2);
          clumpType = 0.5
      in (clumpBaseHeight, clumpBaseWidth, clumpBaseBend, clumpType))"

definition bladeShape :: "grassComputeUniforms \<Rightarrow> vec2 \<Rightarrow> vec2 \<Rightarrow> vec4" where
  "bladeShape u cellId seed =
     (let (clumpBaseHeight, clumpBaseWidth, clumpBaseBend, clumpType) = clumpBaseParams u cellId;
          h1 = hash21 (scale2 seed 13.0);
          h2 = hash21 (scale2 seed 29.0);
          (rx, ry, rz) = uBladeRandomness u;
          height = clumpBaseHeight * mix (1.0 - rx) (1.0 + rx) (fst h1);
          width = clumpBaseWidth * mix (1.0 - ry) (1.0 + ry) (snd h1);
          bend = clumpBaseBend * mix (1.0 - rz) (1.0 + rz) (fst h2);
          type = clumpType
      in (height, width, bend, type))"

fun xz3 :: "vec3 \<Rightarrow> vec2" where
  "xz3 (a1, a2, a3) = (a1, a3)"

definition computeFn :: "grassComputeUniforms \<Rightarrow> vec3 \<Rightarrow> vec4" where
  "computeFn u instancePos =
     (let worldXZ = xz3 instancePos;
          cellId = worldXZ;
          seed = worldXZ
      in bladeShape u cellId seed)"

section \<open>Blade deformer: \<open>grassVertex.glsl\<close>\<close>

text \<open>
Three-component vectors and the swizzles the shader uses.
\<close>

fun add3 :: "vec3 \<Rightarrow> vec3 \<Rightarrow> vec3" where
  "add3 (a1, a2, a3) (b1, b2, b3) = (a1 + b1, a2 + b2, a3 + b3)"

fun sub3 :: "vec3 \<Rightarrow> vec3 \<Rightarrow> vec3" where
  "sub3 (a1, a2, a3) (b1, b2, b3) = (a1 - b1, a2 - b2, a3 - b3)"

fun scale3 :: "vec3 \<Rightarrow> real \<Rightarrow> vec3" where
  "scale3 (a1, a2, a3) k = (a1 * k, a2 * k, a3 * k)"

fun mul3 :: "vec3 \<Rightarrow> vec3 \<Rightarrow> vec3" where
  "mul3 (a1, a2, a3) (b1, b2, b3) = (a1 * b1, a2 * b2, a3 * b3)"

fun neg3 :: "vec3 \<Rightarrow> vec3" where
  "neg3 (a1, a2, a3) = (- a1, - a2, - a3)"

fun dot3 :: "vec3 \<Rightarrow> vec3 \<Rightarrow> real" where
  "dot3 (a1, a2, a3) (b1, b2, b3) = a1 * b1 + a2 * b2 + a3 * b3"

fun cross3 :: "vec3 \<Rightarrow> vec3 \<Rightarrow> vec3" where
  "cross3 (a1, a2, a3) (b1, b2, b3) = (a2 * b3 - a3 * b2, a3 * b1 - a1 * b3, a1 * b2 - a2 * b1)"

definition length3 :: "vec3 \<Rightarrow> real" where
  "length3 a = sqrt (dot3 a a)"

text \<open>
  GLSL \<open>normalize(v) = v / length(v)\<close>. The result for a vector of length zero is undefined
  (a division by zero): it is \<open>None\<close> here.
\<close>

definition normalize3 :: "vec3 \<Rightarrow> vec3 option" where
  "normalize3 v = (if length3 v = 0 then None else Some (scale3 v (1 / length3 v)))"

fun setXZ :: "vec3 \<Rightarrow> vec2 \<Rightarrow> vec3" where
  "setXZ (a1, a2, a3) (b1, b2) = (b1, a2, b2)"

fun xyz4 :: "vec4 \<Rightarrow> vec3" where
  "xyz4 (a1, a2, a3, a4) = (a1, a2, a3)"

fun vec4of :: "vec3 \<Rightarrow> real \<Rightarrow> vec4" where
  "vec4of (a1, a2, a3) w = (a1, a2, a3, w)"

text \<open>
GLSL \<open>smoothstep\<close> and \<open>inversesqrt\<close>.
\<close>

definition smoothstep :: "real \<Rightarrow> real \<Rightarrow> real \<Rightarrow> real" where
  "smoothstep edge0 edge1 x = (let t = clamp ((x - edge0) / (edge1 - edge0)) 0.0 1.0 in t * t * (3.0 - 2.0 * t))"

definition inversesqrt :: "real \<Rightarrow> real" where
  "inversesqrt x = 1 / sqrt x"

text \<open>
  The uniforms of the vertex shader variants (the sway uniforms belong to the variant with
  \<open>applyWindSway\<close>), the attributes of a vertex, and the outputs of \<open>main\<close>. The matrix
  \<open>modelMatrix\<close> is the function it applies to a four-component vector.
\<close>

record vertexUniforms =
  uGrassTextureSize :: vec2
  thicknessStrength :: real
  uTime :: real
  uWindDir :: vec2
  uWindSpeed :: real
  uWindStrength :: real
  uWindScale :: real
  uSwayFreqMin :: real
  uSwayFreqMax :: real
  uSwayStrength :: real
  modelMatrix :: "vec4 \<Rightarrow> vec4"
  cameraPosition :: vec3

record vertexAttributes =
  uv :: vec2
  instanceOffset :: vec3
  instanceId :: real

record vertexOutput =
  csm_Position :: vec3
  vN :: vec3
  vTangent :: vec3
  vSide :: vec3
  vToCenter :: vec2
  vWorldPos :: vec3
  vTest :: vec3
  vUv :: vec2
  vHeight :: real
  vType :: real
  vPresence :: real

text \<open>
  \<open>sampleWind\<close>; the noise function \<open>fbm2\<close> comes from an included library file and is a
  parameter. \<open>bezier2\<close> and \<open>bezier2Tangent\<close>.
\<close>

definition sampleWind :: "(vec2 \<Rightarrow> real \<Rightarrow> real) \<Rightarrow> vertexUniforms \<Rightarrow> vec2 \<Rightarrow> real" where
  "sampleWind fbm2 u worldXZ =
     (let n = fbm2 (scale2 worldXZ (uWindScale u)) (uTime u * uWindSpeed u) in n)"

definition bezier2 :: "vec3 \<Rightarrow> vec3 \<Rightarrow> vec3 \<Rightarrow> real \<Rightarrow> vec3" where
  "bezier2 p0 p1 p2 t =
     (let u = 1.0 - t
      in add3 (add3 (scale3 p0 (u * u)) (scale3 p1 (2.0 * u * t))) (scale3 p2 (t * t)))"

definition bezier2Tangent :: "vec3 \<Rightarrow> vec3 \<Rightarrow> vec3 \<Rightarrow> real \<Rightarrow> vec3" where
  "bezier2Tangent p0 p1 p2 t =
     add3 (scale3 (sub3 p1 p0) (2.0 * (1.0 - t))) (scale3 (sub3 p2 p1) (2.0 * t))"

text \<open>
  \<open>main\<close> in three steps. Lines 92 to 106: the wind sample, the signed wind strength, the
  facing angle and the perpendicular of the facing, \<open>(wind, windS, anglePre, perpXZ)\<close>.
\<close>

definition bladeFacing ::
  "(vec2 \<Rightarrow> real \<Rightarrow> real) \<Rightarrow> vertexUniforms \<Rightarrow> vec2 \<Rightarrow> real \<Rightarrow> real \<times> real \<times> real \<times> vec2" where
  "bladeFacing fbm2 u worldXZ baseAngle =
     (let wind = sampleWind fbm2 u worldXZ;
          windS = (wind * 2.0 - 1.0) * uWindStrength u;
          windAngle = atan2 (snd (uWindDir u)) (fst (uWindDir u));
          windFacing = (wind * 2.0 - 1.0) * 0.35 * uWindStrength u;
          anglePre = mix baseAngle windAngle (0.25 * uWindStrength u) + windFacing;
          facingXZ = (cos anglePre, sin anglePre);
          perpXZ = (- snd facingXZ, fst facingXZ)
      in (wind, windS, anglePre, perpXZ))"

text \<open>
Lines 108 to 134: the control points \<open>(p0, p1, p2)\<close> after wind push and sway.
\<close>

definition bladeP1 :: "real \<Rightarrow> real \<Rightarrow> real \<Rightarrow> vec3" where
  "bladeP1 bladeType height bend =
     (if bladeType < 0.5 then (0.0, height * 0.9, bend * 0.7)
      else if bladeType < 1.5 then (0.0, height * 0.85, bend * 0.8)
      else (0.0, height * 0.8, bend * 1.0))"

definition windControlPoints ::
  "vertexUniforms \<Rightarrow> vec2 \<Rightarrow> real \<Rightarrow> real \<Rightarrow> real \<Rightarrow> real \<Rightarrow> real \<Rightarrow> real \<Rightarrow> vec2
     \<Rightarrow> vec3 \<times> vec3 \<times> vec3" where
  "windControlPoints u worldXZ t height bend bladeType wind windS perpXZ =
     (let p0 = (0.0, 0.0, 0.0);
          p2 = (0.0, height, 0.0);
          p1 = bladeP1 bladeType height bend;
          tipPush = windS * height * 0.35;
          midPush = windS * height * 0.15;
          p1 = add3 p1 (scale3 (fst perpXZ, 0.0, snd perpXZ) midPush);
          p2 = add3 p2 (scale3 (fst perpXZ, 0.0, snd perpXZ) tipPush);
          phase = hash11 (fst worldXZ * 12.3 + snd worldXZ * 78.9) * 6.28318;
          sway = sin (uTime u * (1.8 + wind * 1.2) + phase + t * 2.2);
          swayAmt = uWindStrength u * 0.02 * height * wind;
          p2 = add3 p2 (scale3 (fst perpXZ, 0.0, snd perpXZ) (sway * swayAmt))
      in (p0, p1, p2))"

text \<open>
Lines 140 to 143: the frame, with the fixed reference axis \<open>(0, 0, 1)\<close>.
\<close>

definition tbnFrame :: "vec3 \<Rightarrow> (vec3 \<times> vec3) option" where
  "tbnFrame tangent =
     (let ref = (0.0, 0.0, 1.0)
      in do {
        side \<leftarrow> normalize3 (cross3 ref tangent);
        normal \<leftarrow> normalize3 (cross3 side tangent);
        Some (side, normal)
      })"

text \<open>
  Lines 66 to 68 and 136 to 212: the spine, the tangent, the frame, the blade geometry, the
  rotation, the view-dependent tilt and the outputs. The function \<open>rotate2D\<close> comes from an
  included library file and is a parameter.
\<close>

definition vertexBody ::
  "(vec2 \<Rightarrow> real \<Rightarrow> vec2) \<Rightarrow> vertexUniforms \<Rightarrow> vertexAttributes \<Rightarrow> vec4 \<Rightarrow> vec4
     \<Rightarrow> real \<Rightarrow> real \<Rightarrow> vec2 \<Rightarrow> vec3 \<times> vec3 \<times> vec3 \<Rightarrow> vertexOutput option" where
  "vertexBody rotate2D u a bladeParams clumpData windS anglePre perpXZ points =
     (let t = snd (uv a);
          s = (fst (uv a) - 0.5) * 2.0;
          (height, width, bend, bladeType) = bladeParams;
          (toCenterX, toCenterY, pres, baseAngle) = clumpData;
          toCenter = (toCenterX, toCenterY);
          (p0, p1, p2) = points;
          spine = bezier2 p0 p1 p2 t
      in do {
        tangent \<leftarrow> normalize3 (bezier2Tangent p0 p1 p2 t);
        (side, normal) \<leftarrow> tbnFrame tangent;
        let baseWidth = 0.35;
        let tipThin = 0.9;
        let widthFactor = (t + baseWidth) * ((1.0 - t) powr tipThin);
        let lpos = add3 spine (scale3 side (width * widthFactor * s * pres));
        let tipWeight = smoothstep 0.1 1.0 t;
        let lpos = add3 lpos (scale3 (fst perpXZ, 0.0, snd perpXZ) ((windS * height * 0.05) * tipWeight));
        let angle = anglePre;
        let lpos = setXZ lpos (rotate2D (xz3 lpos) angle);
        let tangent = setXZ tangent (rotate2D (xz3 tangent) angle);
        let side = setXZ side (rotate2D (xz3 side) angle);
        let normal = setXZ normal (rotate2D (xz3 normal) angle);
        tangent \<leftarrow> normalize3 tangent;
        side \<leftarrow> normalize3 side;
        normal \<leftarrow> normalize3 normal;
        let posObj = add3 lpos (instanceOffset a);
        let posW = xyz4 (modelMatrix u (vec4of posObj 1.0));
        camDirW \<leftarrow> normalize3 (sub3 (cameraPosition u) posW);
        tangentW \<leftarrow> normalize3 (xyz4 (modelMatrix u (vec4of tangent 0.0)));
        sideW \<leftarrow> normalize3 (xyz4 (modelMatrix u (vec4of side 0.0)));
        normalW \<leftarrow> normalize3 (xyz4 (modelMatrix u (vec4of normal 0.0)));
        camDirLocal \<leftarrow> normalize3 (dot3 tangentW camDirW, dot3 sideW camDirW, dot3 normalW camDirW);
        let edgeMask = (fst (uv a) - 0.5) * fst (snd camDirLocal);
        let weight = \<bar>fst (snd camDirLocal)\<bar> powr 1.2;
        let edgeMask = edgeMask * weight;
        let edgeMask = clamp edgeMask 0.0 1.0;
        let centerMask = ((1.0 - t) powr 0.5) * ((t + 0.05) powr 0.33);
        let centerMask = clamp centerMask 0.0 1.0;
        let tilt = thicknessStrength u * edgeMask * centerMask;
        nXZ \<leftarrow> normalize3 (mul3 normal (1.0, 0.0, 1.0));
        let posObjTilted = add3 posObj (scale3 nXZ tilt);
        let posWTilted = xyz4 (modelMatrix u (vec4of posObjTilted 1.0));
        Some \<lparr>csm_Position = posObjTilted, vN = neg3 normal, vTangent = tangent, vSide = side,
              vToCenter = toCenter, vWorldPos = posWTilted, vTest = (edgeMask, 0.0, 0.0),
              vUv = uv a, vHeight = t, vType = bladeType, vPresence = pres\<rparr>
      })"

text \<open>
\<open>main\<close>: the texel of the instance, the wind step, the control points, and the rest.
\<close>

definition vertexMain ::
  "(vec2 \<Rightarrow> real \<Rightarrow> real) \<Rightarrow> (vec2 \<Rightarrow> real \<Rightarrow> vec2) \<Rightarrow> vertexUniforms
     \<Rightarrow> (int \<times> int \<Rightarrow> vec4) \<Rightarrow> (int \<times> int \<Rightarrow> vec4) \<Rightarrow> vertexAttributes \<Rightarrow> vertexOutput option" where
  "vertexMain fbm2 rotate2D u uBladeParamsTexture uClumpDataTexture a =
     (let t = snd (uv a);
          worldXZ = xz3 (instanceOffset a);
          ident = instanceId a;
          texelC = texelCoord ident (uGrassTextureSize u);
          bladeParams = uBladeParamsTexture texelC;
          clumpData = uClumpDataTexture texelC;
          (height, width, bend, bladeType) = bladeParams;
          (toCenterX, toCenterY, pres, baseAngle) = clumpData;
          (wind, windS, anglePre, perpXZ) = bladeFacing fbm2 u worldXZ baseAngle;
          points = windControlPoints u worldXZ t height bend bladeType wind windS perpXZ
      in vertexBody rotate2D u a bladeParams clumpData windS anglePre perpXZ points)"

section \<open>Wind functions of the cubic variant of the vertex shader\<close>

text \<open>
\<open>safeNormalize\<close>, \<open>getWindDirection\<close>, \<open>applyWindPush\<close> and \<open>applyWindSway\<close>.
\<close>

definition safeNormalize :: "vec2 \<Rightarrow> vec2" where
  "safeNormalize v = (let m2 = dot2 v v in if m2 > 1 / 1000000 then scale2 v (inversesqrt m2) else (1.0, 0.0))"

definition getWindDirection :: "vertexUniforms \<Rightarrow> vec3" where
  "getWindDirection u = (let n = safeNormalize (uWindDir u) in (fst n, 0.0, snd n))"

definition applyWindPush ::
  "vertexUniforms \<Rightarrow> vec3 \<Rightarrow> vec3 \<Rightarrow> vec3 \<Rightarrow> real \<Rightarrow> real \<Rightarrow> vec3 \<times> vec3 \<times> vec3" where
  "applyWindPush u p1 p2 p3 windStrength01 height =
     (let windDir = getWindDirection u;
          windScale = windStrength01 * uWindStrength u;
          tipPush = windScale * height * 0.25;
          midPush1 = windScale * height * 0.08;
          midPush2 = windScale * height * 0.15;
          p1 = add3 p1 (scale3 windDir midPush1);
          p2 = add3 p2 (scale3 windDir midPush2);
          p3 = add3 p3 (scale3 windDir tipPush)
      in (p1, p2, p3))"

definition applyWindSway ::
  "vertexUniforms \<Rightarrow> vec3 \<Rightarrow> vec3 \<Rightarrow> vec3 \<Rightarrow> real \<Rightarrow> real \<Rightarrow> real \<Rightarrow> real \<Rightarrow> vec2
     \<Rightarrow> (vec3 \<times> vec3 \<times> vec3) option" where
  "applyWindSway u p1 p2 p3 windStrength01 height perBladeHash01 t worldXZ =
     (let W = getWindDirection u
      in do {
        CW \<leftarrow> normalize3 (- snd (snd W), 0.0, fst W);
        let windDir2 = (fst W, snd (snd W));
        let seed = glsl_mod (perBladeHash01 * 3.567) 1.0;
        let gust = 0.65 + 0.35 * sin (uTime u * 0.35 + seed * 6.28318);
        let wave = dot2 worldXZ windDir2 * 0.15;
        let baseFreq = mix (uSwayFreqMin u) (uSwayFreqMax u) seed;
        let phase = perBladeHash01 * 6.28318 + wave;
        let low = sin (uTime u * baseFreq + phase + t * 2.2);
        let high = sin (uTime u * (baseFreq * 5.0) + phase * 1.7 + t * 5.0);
        let amp = uWindStrength u * height * windStrength01;
        let swayLow = amp * gust * uSwayStrength u;
        let swayHigh = amp * 0.8 * uSwayStrength u;
        dir \<leftarrow> normalize3 (add3 W (scale3 CW (high * 0.35)));
        let p1 = add3 p1 (scale3 dir (low * swayLow * 0.25 + high * swayHigh * 0.25 * 0.3));
        let p2 = add3 p2 (scale3 dir (low * swayLow * 0.55 + high * swayHigh * 0.55 * 0.6));
        let p3 = add3 p3 (scale3 dir (low * swayLow * 1.00 + high * swayHigh * 1.00 * 1.0));
        Some (p1, p2, p3)
      })"

section \<open>Frame construction of the first variant of the vertex shader\<close>

text \<open>
  The reference axis \<open>(1, 0, 0)\<close> is replaced by \<open>(0, 0, 1)\<close> when the tangent is within
  \<open>0.95\<close> of it.
\<close>

definition guardedRef :: "vec3 \<Rightarrow> vec3" where
  "guardedRef tangent =
     (let ref = (1.0, 0.0, 0.0)
      in if \<bar>dot3 tangent ref\<bar> > 0.95 then (0.0, 0.0, 1.0) else ref)"

definition tbnFrameGuarded :: "vec3 \<Rightarrow> (vec3 \<times> vec3) option" where
  "tbnFrameGuarded tangent =
     (let ref = guardedRef tangent
      in do {
        normal \<leftarrow> normalize3 (cross3 tangent ref);
        side \<leftarrow> normalize3 (cross3 normal tangent);
        Some (normal, side)
      })"

section \<open>Sample inputs\<close>

text \<open>
Concrete uniforms, textures and a vertex, for the closed statements below.
\<close>

definition originTexture :: "vec2 \<Rightarrow> vec4" where
  "originTexture coord = (0, 0, 0, 0)"

definition defaultCompute :: computeUniforms where
  "defaultCompute = \<lparr>uResolution = (256, 256), bladeHeight = 0.6, bladeWidth = 0.02,
     bendAmount = 0.4, clumpSize = 0.8, clumpRadius = 1.5\<rparr>"

definition sampleGrassUniforms :: grassComputeUniforms where
  "sampleGrassUniforms = \<lparr>uBladeHeightMin = 0.4, uBladeHeightMax = 0.8, uBladeWidthMin = 0.01,
     uBladeWidthMax = 0.05, uBendAmountMin = 0.2, uBendAmountMax = 0.6, uBladeRandomness = (0, 0, 0)\<rparr>"

definition constantWind :: "vec2 \<Rightarrow> real \<Rightarrow> real" where
  "constantWind p s = 0.5"

definition plainRotate :: "vec2 \<Rightarrow> real \<Rightarrow> vec2" where
  "plainRotate v a = (fst v * cos a - snd v * sin a, fst v * sin a + snd v * cos a)"

definition sampleUniforms :: vertexUniforms where
  "sampleUniforms = \<lparr>uGrassTextureSize = (256, 256), thicknessStrength = 0.02, uTime = 0,
     uWindDir = (1, 0), uWindSpeed = 0.6, uWindStrength = 0.35, uWindScale = 0.25,
     uSwayFreqMin = 0.4, uSwayFreqMax = 1.5, uSwayStrength = 0.1,
     modelMatrix = (\<lambda>v. v), cameraPosition = (0, 3, 10)\<rparr>"

definition rootVertex :: vertexAttributes where
  "rootVertex = \<lparr>uv = (0.5, 0), instanceOffset = (0, 0, 0), instanceId = 0\<rparr>"

definition sampleClumpData :: "int \<times> int \<Rightarrow> vec4" where
  "sampleClumpData c = (1, 0, 1, 0)"

definition flatBentBlade :: "int \<times> int \<Rightarrow> vec4" where
  "flatBentBlade c = (0, 0.02, 1, 0)"


definition liftedTexture :: "vec2 \<Rightarrow> vec4" where
  "liftedTexture coord = (0, 5, 0, 7)"

text \<open>
  Two blades for the clump locator with a clump size of 1: the blade at the world origin,
  which is the seed of cell \<open>(0, 0)\<close>, and a blade on the x axis next to it, nearer to the
  origin than the seed of the cell below, \<open>(0, -1)\<close>, is to the x axis.
\<close>

definition hazardGap :: real where
  "hazardGap = 1 - snd (hash2 (0, - 1))"

definition nearOriginBlade :: vec3 where
  "nearOriginBlade = (min (hazardGap / 2) (1 / 10000000000), 0, 0)"

definition originBlade :: vec3 where
  "originBlade = (0, 0, 0)"

text \<open>
  Loop invariants of the two layout loops after \<open>n\<close> grid cells: the cursors, the array
  lengths, and the contents written so far.
\<close>

definition geomInv :: "nat \<Rightarrow> real \<Rightarrow> nat \<Rightarrow> geomState \<Rightarrow> bool" where
  "geomInv g p n st \<longleftrightarrow>
     iOff st = 3 * n \<and> idIdx st = n \<and> length (offsets st) = g * g * 3 \<and> length (instanceIds st) = g * g \<and>
     (\<forall>k<n. offsets st ! (3 * k) = bladePx g p (k div g) (k mod g)
          \<and> offsets st ! (3 * k + 1) = 0
          \<and> offsets st ! (3 * k + 2) = bladePz g p (k div g) (k mod g)
          \<and> instanceIds st ! k = real k)"

definition texInv :: "nat \<Rightarrow> real \<Rightarrow> nat \<Rightarrow> real list \<times> nat \<Rightarrow> bool" where
  "texInv g p n st \<longleftrightarrow>
     snd st = 4 * n \<and> length (fst st) = g * g * 4 \<and>
     (\<forall>k<n. fst st ! (4 * k) = bladePx g p (k div g) (k mod g)
          \<and> fst st ! (4 * k + 1) = 0
          \<and> fst st ! (4 * k + 2) = bladePz g p (k div g) (k mod g)
          \<and> fst st ! (4 * k + 3) = 0)"

section \<open>Properties\<close>

lemma grid_index_bound:
  fixes x z g :: nat
  assumes "x < g" "z < g"
  shows "x * g + z < g * g"
proof -
  have "x * g + z < Suc x * g" using assms by simp
  also have "\<dots> \<le> g * g" using assms by (intro mult_le_mono1) simp
  finally show ?thesis .
qed
lemma geomInv_body:
  assumes "geomInv g p (x * g + z) st" "z < g" "x < g"
  shows "geomInv g p (x * g + z + 1) (geometryBody g p x z st)"
proof -
  let ?n = "x * g + z"
  have n: "?n < g * g" using assms by (simp add: grid_index_bound)
  have dm: "?n div g = x" "?n mod g = z" using assms by simp_all
  from assms(1) have I: "iOff st = 3 * ?n" "idIdx st = ?n" "length (offsets st) = g * g * 3"
    "length (instanceIds st) = g * g"
    and old: "\<And>k. k < ?n \<Longrightarrow> offsets st ! (3 * k) = bladePx g p (k div g) (k mod g)
          \<and> offsets st ! (3 * k + 1) = 0
          \<and> offsets st ! (3 * k + 2) = bladePz g p (k div g) (k mod g)
          \<and> instanceIds st ! k = real k"
    by (simp_all add: geomInv_def)
  show ?thesis
    unfolding geomInv_def
  proof (intro conjI allI impI)
    fix k assume "k < ?n + 1"
    then consider "k < ?n" | "k = ?n" by linarith
    then show "offsets (geometryBody g p x z st) ! (3 * k) = bladePx g p (k div g) (k mod g)"
      using n old I dm by cases (simp_all add: geometryBody_def Let_def nth_list_update)
    from \<open>k < ?n + 1\<close> consider "k < ?n" | "k = ?n" by linarith
    then show "offsets (geometryBody g p x z st) ! (3 * k + 1) = 0"
      using n old I dm by cases (simp_all add: geometryBody_def Let_def nth_list_update)
    from \<open>k < ?n + 1\<close> consider "k < ?n" | "k = ?n" by linarith
    then show "offsets (geometryBody g p x z st) ! (3 * k + 2) = bladePz g p (k div g) (k mod g)"
      using n old I dm by cases (simp_all add: geometryBody_def Let_def nth_list_update)
    from \<open>k < ?n + 1\<close> consider "k < ?n" | "k = ?n" by linarith
    then show "instanceIds (geometryBody g p x z st) ! k = real k"
      using n old I dm by cases (simp_all add: geometryBody_def Let_def nth_list_update)
  qed (simp_all add: geometryBody_def Let_def I)
qed

lemma geomInv_inner:
  assumes "geomInv g p (x * g + z0) st" "z0 \<le> g" "x < g"
  shows "geomInv g p (x * g + g) (geometryInner g p x [z0..<g] st)"
  using assms
proof (induction "g - z0" arbitrary: z0 st)
  case 0
  then show ?case by simp
next
  case (Suc d)
  then have z0: "z0 < g" by simp
  have lt: "x * g + z0 < g * g" using z0 Suc.prems by (simp add: grid_index_bound)
  have "geomInv g p (x * g + Suc z0) (geometryBody g p x z0 st)"
    using geomInv_body [OF Suc.prems(1) z0 Suc.prems(3)] by simp
  moreover have "d = g - Suc z0" using Suc.hyps(2) by simp
  ultimately have "geomInv g p (x * g + g) (geometryInner g p x [Suc z0..<g] (geometryBody g p x z0 st))"
    using Suc.hyps(1) [of "Suc z0"] z0 Suc.prems(3) by simp
  then show ?case using z0 lt by (simp add: upt_conv_Cons)
qed

lemma geomInv_outer:
  assumes "n \<le> g"
  shows "geomInv g p (n * g) (fold (\<lambda>x st. geometryInner g p x [0..<g] st) [0..<n]
       \<lparr>offsets = replicate (g * g * 3) 0, instanceIds = replicate (g * g) 0, iOff = 0, idIdx = 0\<rparr>)"
  using assms
proof (induction n)
  case 0
  then show ?case by (simp add: geomInv_def)
next
  case (Suc n)
  then have "geomInv g p (n * g + 0) (fold (\<lambda>x st. geometryInner g p x [0..<g] st) [0..<n]
       \<lparr>offsets = replicate (g * g * 3) 0, instanceIds = replicate (g * g) 0, iOff = 0, idIdx = 0\<rparr>)"
    by simp
  from geomInv_inner [OF this] Suc.prems show ?case by (simp add: add.commute)
qed

lemma createGrassGeometry_inv: "geomInv g p (g * g) (createGrassGeometry g p)"
  using geomInv_outer [of g g p] by (simp add: createGrassGeometry_def)


lemma texInv_body:
  assumes "texInv g p (x * g + z) st" "z < g" "x < g"
  shows "texInv g p (x * g + z + 1) (textureBody g p x z st)"
proof -
  let ?n = "x * g + z"
  obtain data idx where st: "st = (data, idx)" by (cases st)
  have n: "?n < g * g" using assms by (simp add: grid_index_bound)
  have dm: "?n div g = x" "?n mod g = z" using assms by simp_all
  from assms(1) have I: "idx = 4 * ?n" "length data = g * g * 4"
    and old: "\<And>k. k < ?n \<Longrightarrow> data ! (4 * k) = bladePx g p (k div g) (k mod g)
          \<and> data ! (4 * k + 1) = 0
          \<and> data ! (4 * k + 2) = bladePz g p (k div g) (k mod g)
          \<and> data ! (4 * k + 3) = 0"
    by (simp_all add: texInv_def st)
  show ?thesis
    unfolding texInv_def
  proof (intro conjI allI impI)
    fix k assume k: "k < ?n + 1"
    then consider "k < ?n" | "k = ?n" by linarith
    then show "fst (textureBody g p x z st) ! (4 * k) = bladePx g p (k div g) (k mod g)"
      using n old I dm by cases (simp_all add: textureBody_def Let_def st nth_list_update)
    from k consider "k < ?n" | "k = ?n" by linarith
    then show "fst (textureBody g p x z st) ! (4 * k + 1) = 0"
      using n old I dm by cases (simp_all add: textureBody_def Let_def st nth_list_update)
    from k consider "k < ?n" | "k = ?n" by linarith
    then show "fst (textureBody g p x z st) ! (4 * k + 2) = bladePz g p (k div g) (k mod g)"
      using n old I dm by cases (simp_all add: textureBody_def Let_def st nth_list_update)
    from k consider "k < ?n" | "k = ?n" by linarith
    then show "fst (textureBody g p x z st) ! (4 * k + 3) = 0"
      using n old I dm by cases (simp_all add: textureBody_def Let_def st nth_list_update)
  qed (simp_all add: textureBody_def Let_def st I)
qed

lemma texInv_inner:
  assumes "texInv g p (x * g) st" "m \<le> g" "x < g"
  shows "texInv g p (x * g + m) (fold (\<lambda>z st'. textureBody g p x z st') [0..<m] st)"
  using assms(2)
proof (induction m)
  case 0
  then show ?case using assms(1) by simp
next
  case (Suc m)
  then have "texInv g p (x * g + m) (fold (\<lambda>z st'. textureBody g p x z st') [0..<m] st)"
    and "m < g" by simp_all
  from texInv_body [OF this assms(3)] show ?case by simp
qed

lemma texInv_outer:
  assumes "n \<le> g"
  shows "texInv g p (n * g)
     (fold (\<lambda>x st. fold (\<lambda>z st'. textureBody g p x z st') [0..<g] st) [0..<n]
        (replicate (g * g * 4) 0, 0))"
  using assms
proof (induction n)
  case 0
  then show ?case by (simp add: texInv_def)
next
  case (Suc n)
  then have "texInv g p (n * g)
     (fold (\<lambda>x st. fold (\<lambda>z st'. textureBody g p x z st') [0..<g] st) [0..<n]
        (replicate (g * g * 4) 0, 0))" and "n < g"
    by simp_all
  from texInv_inner [OF this(1) order_refl this(2)] show ?case by (simp add: add.commute)
qed

lemma createPositionTexture_inv:
  "texInv g p (g * g)
     (fold (\<lambda>x st. fold (\<lambda>z st'. textureBody g p x z st') [0..<g] st) [0..<g]
        (replicate (g * g * 4) 0, 0))"
  using texInv_outer [of g g p] by simp

lemma texelCoord_grid:
  assumes "0 < g"
  shows "texelCoord (real k) (real g, real g) = (int (k mod g), int (k div g))"
proof -
  have fl: "\<lfloor>real k / real g\<rfloor> = int (k div g)"
    by (simp add: floor_divide_of_nat_eq)
  have "real k = real (k div g * g + k mod g)" by simp
  also have "\<dots> = real (k div g) * real g + real (k mod g)"
    by (simp only: of_nat_add of_nat_mult)
  finally have m: "glsl_mod (real k) (real g) = real (k mod g)"
    unfolding glsl_mod_def fl by (simp add: algebra_simps)
  have g: "real g \<noteq> 0" using assms by simp
  show ?thesis
    unfolding texelCoord_def Let_def fst_conv snd_conv m fl using g by simp
qed

lemma fract_range: "0 \<le> fract x" "fract x < 1"
  unfolding fract_def by linarith+

lemma fold_minStep:
  assumes "fold (minStep f) cs (m0, b0) = (m, b)"
  shows "(m = m0 \<and> b = b0 \<and> (\<forall>c\<in>set cs. m0 \<le> f c))
       \<or> (\<exists>k<length cs. b = cs ! k \<and> m = f (cs ! k) \<and> m < m0
             \<and> (\<forall>l<length cs. f (cs ! k) \<le> f (cs ! l))
             \<and> (\<forall>l<k. f (cs ! k) < f (cs ! l)))"
  using assms
proof (induction cs arbitrary: m b rule: rev_induct)
  case Nil
  then show ?case by simp
next
  case (snoc c cs)
  obtain m1 b1 where prev: "fold (minStep f) cs (m0, b0) = (m1, b1)"
    by (cases "fold (minStep f) cs (m0, b0)")
  from snoc.IH [OF prev]
  have IH: "(m1 = m0 \<and> b1 = b0 \<and> (\<forall>c\<in>set cs. m0 \<le> f c))
       \<or> (\<exists>k<length cs. b1 = cs ! k \<and> m1 = f (cs ! k) \<and> m1 < m0
             \<and> (\<forall>l<length cs. f (cs ! k) \<le> f (cs ! l))
             \<and> (\<forall>l<k. f (cs ! k) < f (cs ! l)))" .
  have m1_le: "m1 \<le> m0" using IH by auto
  have m1_min: "\<forall>l<length cs. m1 \<le> f (cs ! l)"
    using IH by (auto simp: all_set_conv_all_nth)
  from snoc.prems prev have step: "minStep f c (m1, b1) = (m, b)" by simp
  show ?case
  proof (cases "f c < m1")
    case True
    with step have mb: "m = f c" "b = c" by (auto simp add: minStep_def)
    have "\<forall>l<length (cs @ [c]). f c \<le> f ((cs @ [c]) ! l)"
      using True m1_min by (auto simp: nth_append less_Suc_eq)
    moreover have "\<forall>l<length cs. f c < f ((cs @ [c]) ! l)"
      using True m1_min by (auto simp: nth_append)
    moreover have "f c < m0" using True m1_le by simp
    ultimately have "\<exists>k<length (cs @ [c]). b = (cs @ [c]) ! k \<and> m = f ((cs @ [c]) ! k) \<and> m < m0
             \<and> (\<forall>l<length (cs @ [c]). f ((cs @ [c]) ! k) \<le> f ((cs @ [c]) ! l))
             \<and> (\<forall>l<k. f ((cs @ [c]) ! k) < f ((cs @ [c]) ! l))"
      by (intro exI [of _ "length cs"]) (simp add: mb)
    then show ?thesis ..
  next
    case False
    with step have mb: "m = m1" "b = b1" by (auto simp add: minStep_def)
    from IH show ?thesis
    proof
      assume a: "m1 = m0 \<and> b1 = b0 \<and> (\<forall>c\<in>set cs. m0 \<le> f c)"
      then have "m = m0 \<and> b = b0 \<and> (\<forall>c'\<in>set (cs @ [c]). m0 \<le> f c')"
        using False mb by auto
      then show ?thesis ..
    next
      assume "\<exists>k<length cs. b1 = cs ! k \<and> m1 = f (cs ! k) \<and> m1 < m0
             \<and> (\<forall>l<length cs. f (cs ! k) \<le> f (cs ! l))
             \<and> (\<forall>l<k. f (cs ! k) < f (cs ! l))"
      then obtain k where k: "k < length cs" "b1 = cs ! k" "m1 = f (cs ! k)" "m1 < m0"
        "\<forall>l<length cs. f (cs ! k) \<le> f (cs ! l)" "\<forall>l<k. f (cs ! k) < f (cs ! l)"
        by blast
      have "\<forall>l<length (cs @ [c]). f ((cs @ [c]) ! k) \<le> f ((cs @ [c]) ! l)"
        using k False by (auto simp: nth_append less_Suc_eq)
      moreover have "\<forall>l<k. f ((cs @ [c]) ! k) < f ((cs @ [c]) ! l)"
        using k by (auto simp: nth_append)
      ultimately have "\<exists>k<length (cs @ [c]). b = (cs @ [c]) ! k \<and> m = f ((cs @ [c]) ! k) \<and> m < m0
             \<and> (\<forall>l<length (cs @ [c]). f ((cs @ [c]) ! k) \<le> f ((cs @ [c]) ! l))
             \<and> (\<forall>l<k. f ((cs @ [c]) ! k) < f ((cs @ [c]) ! l))"
        using k mb by (intro exI [of _ k]) (simp add: nth_append)
      then show ?thesis ..
    qed
  qed
qed

lemma clumpStep_minStep:
  "clumpStep cell baseCell j i st =
     minStep (seedDist2 cell) (add2 baseCell (of_int i, of_int j)) st"
  by (cases st) (simp add: clumpStep_def minStep_def seedDist2_def seedPoint_def Let_def)

lemma clump_loop_fold:
  "fold (\<lambda>j st. fold (\<lambda>i st'. clumpStep cell baseCell j i st') [-1, 0, 1] st) [-1, 0, 1] s
     = fold (minStep (seedDist2 cell)) (clumpCandidates baseCell) s"
  by (simp add: clumpStep_minStep clumpCandidates_def neighborOffsets_def)


lemma hash2_range:
  "0 \<le> fst (hash2 p)" "fst (hash2 p) < 1" "0 \<le> snd (hash2 p)" "snd (hash2 p) < 1"
  by (simp_all add: hash2_def Let_def fract_range)

lemma square_lt_4:
  fixes d :: real
  assumes "- 2 < d" "d < 2"
  shows "d * d < 4"
proof -
  have "\<bar>d\<bar> < 2" using assms by simp
  then have "\<bar>d\<bar> * \<bar>d\<bar> < 2 * 2" by (intro mult_strict_mono') simp_all
  then show ?thesis by (simp add: abs_mult_self_eq)
qed

lemma seedDist2_bound:
  assumes "n \<in> set (clumpCandidates (floor2 cell))"
  shows "seedDist2 cell n < 8"
proof -
  from assms obtain ji where ji: "ji \<in> set neighborOffsets"
    and n': "n = (\<lambda>(j, i). add2 (floor2 cell) (of_int i, of_int j)) ji"
    unfolding clumpCandidates_def set_map by (rule imageE)
  obtain j i where "ji = (j, i)" by (cases ji)
  with ji n' have ij: "- 1 \<le> i" "i \<le> 1" "- 1 \<le> j" "j \<le> 1"
    and n: "n = add2 (floor2 cell) (of_int i, of_int j)"
    by (auto simp add: neighborOffsets_def)
  define dx where "dx = fst cell - (of_int \<lfloor>fst cell\<rfloor> + of_int i + fst (hash2 n))"
  define dy where "dy = snd cell - (of_int \<lfloor>snd cell\<rfloor> + of_int j + snd (hash2 n))"
  have i: "- 1 \<le> (of_int i :: real)" "(of_int i :: real) \<le> 1"
    and j: "- 1 \<le> (of_int j :: real)" "(of_int j :: real) \<le> 1"
    using ij by (simp_all add: of_int_le_1_iff flip: of_int_minus)
  have "- 2 < dx" "dx < 2" "- 2 < dy" "dy < 2"
    unfolding dx_def dy_def using hash2_range [of n] i j by linarith+
  then have "dx * dx < 4" "dy * dy < 4" by (simp_all add: square_lt_4)
  moreover have "seedDist2 cell n = dx * dx + dy * dy"
    by (simp add: seedDist2_def seedPoint_def dot2_def sub2_def add2_def floor2_def n dx_def dy_def)
  ultimately show ?thesis by simp
qed

lemma seedPoint_in_cell:
  "fst n \<le> fst (seedPoint n)" "fst (seedPoint n) < fst n + 1"
  "snd n \<le> snd (seedPoint n)" "snd (seedPoint n) < snd n + 1"
  using hash2_range [of n] by (simp_all add: seedPoint_def add2_def)

lemma clump_loop_result:
  obtains k where "k < 9"
    "fold (\<lambda>j st. fold (\<lambda>i st'. clumpStep cell (floor2 cell) j i st') [-1, 0, 1] st) [-1, 0, 1]
       (1000000000, (0, 0))
     = (seedDist2 cell (clumpCandidates (floor2 cell) ! k), clumpCandidates (floor2 cell) ! k)"
    "\<forall>l<9. seedDist2 cell (clumpCandidates (floor2 cell) ! k)
             \<le> seedDist2 cell (clumpCandidates (floor2 cell) ! l)"
    "\<forall>l<k. seedDist2 cell (clumpCandidates (floor2 cell) ! k)
             < seedDist2 cell (clumpCandidates (floor2 cell) ! l)"
proof -
  let ?cs = "clumpCandidates (floor2 cell)"
  have len: "length ?cs = 9" by (simp add: clumpCandidates_def neighborOffsets_def)
  obtain m b where mb: "fold (minStep (seedDist2 cell)) ?cs (1000000000, (0, 0)) = (m, b)"
    by (cases "fold (minStep (seedDist2 cell)) ?cs (1000000000, (0, 0))")
  have "?cs ! 0 \<in> set ?cs" using len by (intro nth_mem) simp
  then have "seedDist2 cell (?cs ! 0) < 8" by (rule seedDist2_bound)
  then have "\<not> (\<forall>c\<in>set ?cs. 1000000000 \<le> seedDist2 cell c)"
    using \<open>?cs ! 0 \<in> set ?cs\<close> by force
  with fold_minStep [OF mb] obtain k where k: "k < length ?cs" "b = ?cs ! k" "m = seedDist2 cell (?cs ! k)"
    "\<forall>l<length ?cs. seedDist2 cell (?cs ! k) \<le> seedDist2 cell (?cs ! l)"
    "\<forall>l<k. seedDist2 cell (?cs ! k) < seedDist2 cell (?cs ! l)"
    by blast
  show thesis
  proof (rule that [of k])
    show "k < 9" using k(1) by (simp only: len)
    show "fold (\<lambda>j st. fold (\<lambda>i st'. clumpStep cell (floor2 cell) j i st') [-1, 0, 1] st) [-1, 0, 1]
            (1000000000, (0, 0)) = (seedDist2 cell (?cs ! k), ?cs ! k)"
      unfolding clump_loop_fold mb k(2,3) by (rule refl)
    show "\<forall>l<9. seedDist2 cell (?cs ! k) \<le> seedDist2 cell (?cs ! l)"
      using k(4) by (simp only: len)
    show "\<forall>l<k. seedDist2 cell (?cs ! k) < seedDist2 cell (?cs ! l)" by (rule k(5))
  qed
qed

lemma world_distance:
  assumes "0 < csize"
  shows "length2 (sub2 worldXZ (scale2 (seedPoint n) csize))
           = sqrt (seedDist2 (div2 worldXZ csize) n) * csize"
proof -
  have "dot2 (sub2 worldXZ (scale2 (seedPoint n) csize)) (sub2 worldXZ (scale2 (seedPoint n) csize))
          = seedDist2 (div2 worldXZ csize) n * (csize * csize)"
    using assms
    by (simp add: seedDist2_def dot2_def sub2_def scale2_def div2_def field_simps)
  then show ?thesis
    using assms by (simp add: length2_def real_sqrt_mult)
qed


lemma smoothstep_poly_mono:
  fixes s t :: real
  assumes "0 \<le> s" "s \<le> t" "t \<le> 1"
  shows "s * s * (3 - 2 * s) \<le> t * t * (3 - 2 * t)"
proof -
  have "t * t * (3 - 2 * t) - s * s * (3 - 2 * s)
        = (t - s) * (3 * (t + s) - 2 * (t * t + t * s + s * s))"
    by (simp add: algebra_simps)
  moreover have "0 \<le> 3 * (t + s) - 2 * (t * t + t * s + s * s)"
  proof -
    define a b c where "a = t * t" and "b = s * s" and "c = t * s"
    have "a \<le> t" "b \<le> s" "c \<le> s"
      unfolding a_def b_def c_def using assms
      by (simp_all add: mult_left_le mult_left_le_one_le)
    then have "0 \<le> 3 * (t + s) - 2 * (a + c + b)"
      using assms by argo
    then show ?thesis unfolding a_def b_def c_def .
  qed
  ultimately have "0 \<le> t * t * (3 - 2 * t) - s * s * (3 - 2 * s)"
    using assms by simp
  then show ?thesis by simp
qed

lemma smoothstep_poly_range:
  fixes t :: real
  assumes "0 \<le> t" "t \<le> 1"
  shows "0 \<le> t * t * (3 - 2 * t)" "t * t * (3 - 2 * t) \<le> 1"
proof -
  show "0 \<le> t * t * (3 - 2 * t)" using assms by simp
  show "t * t * (3 - 2 * t) \<le> 1"
    using smoothstep_poly_mono [of t 1] assms by simp
qed

lemma clamp_unit_range: "0 \<le> clamp x 0 1" "clamp x 0 1 \<le> 1"
  by (simp_all add: clamp_def)

lemma clamp_mono: "x \<le> y \<Longrightarrow> clamp x lo hi \<le> clamp y lo hi"
  by (auto simp add: clamp_def min_def max_def)

lemma computeMain_of_position:
  "computeMain u uPositions fragCoord =
     computeMain u (\<lambda>_. (fst (texelXZ (uPositions (fst fragCoord / fst (uResolution u), snd fragCoord / snd (uResolution u)))), 0,
                          snd (texelXZ (uPositions (fst fragCoord / fst (uResolution u), snd fragCoord / snd (uResolution u)))), 0)) (0, 0)"
  by (simp add: computeMain_def texelXZ_def Let_def split: prod.splits)

lemma hash11_range: "0 \<le> hash11 x" "hash11 x < 1"
  by (simp_all add: hash11_def fract_range)

lemma atan2_range: "- pi < atan2 y x" "atan2 y x \<le> pi"
proof -
  have a: "- (pi / 2) < arctan (y / x)" "arctan (y / x) < pi / 2"
    by (rule arctan_lbound, rule arctan_ubound)
  have pi: "0 < pi" by (rule pi_gt_zero)
  consider "0 < x" | "x < 0" "0 \<le> y" | "x < 0" "y < 0" | "x = 0" by linarith
  then have "- pi < atan2 y x \<and> atan2 y x \<le> pi"
  proof cases
    case 1
    then show ?thesis using a pi by (simp add: atan2_def)
  next
    case 2
    then have "y / x \<le> 0" by (simp add: divide_nonneg_neg)
    then have "arctan (y / x) \<le> 0" by (simp add: arctan_le_zero_iff)
    then show ?thesis using 2 a pi by (simp add: atan2_def)
  next
    case 3
    then have "0 < y / x" by (simp add: divide_neg_neg)
    then have "0 < arctan (y / x)" by (simp add: zero_less_arctan_iff)
    then show ?thesis using 3 a pi by (simp add: atan2_def)
  next
    case 4
    have f: "- (pi / 2) \<le> pi" "- pi < pi / 2" "- pi < - (pi / 2)" "pi / 2 \<le> pi"
      using pi by linarith+
    show ?thesis using 4 by (simp add: atan2_def f)
  qed
  then show "- pi < atan2 y x" "atan2 y x \<le> pi" by simp_all
qed

lemma hash2_origin: "hash2 (0, 0) = (0, 0)"
  by (simp add: hash2_def dot2_def fract_def)

lemma hash11_zero: "hash11 0 = 0"
  by (simp add: hash11_def fract_def)

lemma candidate_integral:
  assumes "k < 9"
  shows "\<exists>i j :: int. clumpCandidates (0, 0) ! k = (of_int i, of_int j)"
proof -
  have "clumpCandidates (0, 0) ! k \<in> set (clumpCandidates (0, 0))"
    using assms by (intro nth_mem) (simp add: clumpCandidates_def neighborOffsets_def)
  then obtain ji where "clumpCandidates (0, 0) ! k = (\<lambda>(j, i). add2 (0, 0) (of_int i, of_int j)) ji"
    unfolding clumpCandidates_def set_map by (rule imageE)
  moreover obtain j i where "ji = (j, i)" by (cases ji)
  ultimately have "clumpCandidates (0, 0) ! k = (of_int i, of_int j)"
    by (simp add: add2_def)
  then show ?thesis by blast
qed

lemma getClumpInfo_origin:
  assumes "0 < cs"
  shows "getClumpInfo cs (0, 0) = (0, 0, 0)"
proof -
  have cell: "div2 (0, 0) cs = (0, 0)" "floor2 (0, 0) = (0, 0)"
    by (simp_all add: div2_def floor2_def)
  obtain k where k: "k < 9"
    "fold (\<lambda>j st. fold (\<lambda>i st'. clumpStep (0, 0) (floor2 (0, 0)) j i st') [-1, 0, 1] st) [-1, 0, 1]
       (1000000000, (0, 0))
     = (seedDist2 (0, 0) (clumpCandidates (floor2 (0, 0)) ! k), clumpCandidates (floor2 (0, 0)) ! k)"
    "\<forall>l<9. seedDist2 (0, 0) (clumpCandidates (floor2 (0, 0)) ! k)
             \<le> seedDist2 (0, 0) (clumpCandidates (floor2 (0, 0)) ! l)"
    by (rule clump_loop_result [of "(0, 0)"])
  define best where "best = clumpCandidates (0, 0) ! k"
  have c4: "clumpCandidates (0, 0) ! 4 = (0, 0)"
    by (simp add: clumpCandidates_def neighborOffsets_def add2_def)
  have "seedDist2 (0, 0) (0, 0) = 0"
    by (simp add: seedDist2_def seedPoint_def hash2_origin add2_def sub2_def dot2_def)
  moreover from k(3) have "seedDist2 (0, 0) best \<le> seedDist2 (0, 0) (clumpCandidates (0, 0) ! 4)"
    unfolding best_def cell by simp
  ultimately have "seedDist2 (0, 0) best \<le> 0"
    by (simp add: c4)
  moreover have d: "seedDist2 (0, 0) best = fst (seedPoint best) * fst (seedPoint best)
        + snd (seedPoint best) * snd (seedPoint best)"
    by (simp add: seedDist2_def sub2_def dot2_def)
  ultimately have z: "fst (seedPoint best) = 0" "snd (seedPoint best) = 0"
    by (simp_all add: sum_squares_eq_zero_iff order_antisym_conv)
  from candidate_integral [OF k(1)] obtain i j :: int where ij: "best = (of_int i, of_int j)"
    unfolding best_def by blast
  from seedPoint_in_cell [of best] z ij
  have "real_of_int i \<le> 0" "0 < real_of_int i + 1" "real_of_int j \<le> 0" "0 < real_of_int j + 1"
    by simp_all
  then have "i = 0" "j = 0" by linarith+
  with ij have b: "best = (0, 0)" by simp
  have "seedDist2 (0, 0) best = 0" using d z by simp
  then show ?thesis
    unfolding getClumpInfo_def Let_def cell using k(2) b
    unfolding cell best_def by simp
qed

lemma baseAngle_at_origin:
  "snd (snd (snd (snd (computeMain defaultCompute originTexture (0.5, 0.5))))) = - 0.725"
proof -
  have g: "getClumpInfo (clumpSize defaultCompute) (0, 0) = (0, 0, 0)"
    by (rule getClumpInfo_origin) (simp add: defaultCompute_def)
  have t: "toCenterDir (0, 0) = (1, 0)"
    by (simp add: toCenterDir_def length2_def dot2_def)
  have a: "atan2 0 1 = 0" by (simp add: atan2_def)
  have b: "baseAngleOf (0, 0) (0, 0) (1, 0) = - 0.725"
    by (simp add: baseAngleOf_def a dot2_def hash11_zero Let_def)
  show ?thesis
    by (simp add: computeMain_def originTexture_def g hash2_origin
        add2_def scale2_def sub2_def t b Let_def)
qed

lemma add3_zero [simp]: "add3 p (0, 0, 0) = p"
  by (cases p) simp

lemma scale3_zero [simp]: "scale3 v 0 = (0, 0, 0)"
  by (cases v) simp

lemma bladeFacing_still:
  assumes "uWindStrength u = 0"
  shows "bladeFacing fbm2 u worldXZ baseAngle
           = (sampleWind fbm2 u worldXZ, 0, baseAngle, (- sin baseAngle, cos baseAngle))"
  by (simp add: bladeFacing_def assms mix_def Let_def)

lemma windControlPoints_still:
  assumes "uWindStrength u = 0"
  shows "windControlPoints u worldXZ t height bend bladeType wind 0 perpXZ
           = ((0, 0, 0), bladeP1 bladeType height bend, (0, height, 0))"
  by (simp add: windControlPoints_def assms Let_def)

lemma vertexBody_time:
  "vertexBody rotate2D (u\<lparr>uTime := x\<rparr>) a bp cd windS anglePre perpXZ points
     = vertexBody rotate2D u a bp cd windS anglePre perpXZ points"
  by (simp add: vertexBody_def)

lemma vertexMain_still:
  assumes "uWindStrength u = 0"
  shows "vertexMain fbm2 rotate2D (u\<lparr>uTime := x\<rparr>) bt ct a
       = (let t = snd (uv a);
              texelC = texelCoord (instanceId a) (uGrassTextureSize u);
              (height, width, bend, bladeType) = bt texelC;
              (toCenterX, toCenterY, pres, baseAngle) = ct texelC
          in vertexBody rotate2D u a (bt texelC) (ct texelC) 0 baseAngle (- sin baseAngle, cos baseAngle)
               ((0, 0, 0), bladeP1 bladeType height bend, (0, height, 0)))"
proof -
  have w: "uWindStrength (u\<lparr>uTime := x\<rparr>) = 0" using assms by simp
  show ?thesis
    unfolding vertexMain_def Let_def bladeFacing_still [OF w]
    by (simp add: windControlPoints_still [OF w] vertexBody_time split: prod.splits)
qed

lemma safeNormalize_unit: "dot2 (safeNormalize v) (safeNormalize v) = 1"
proof (cases "dot2 v v > 1 / 1000000")
  case True
  then have pos: "0 < dot2 v v" by simp
  have "dot2 (scale2 v (inversesqrt (dot2 v v))) (scale2 v (inversesqrt (dot2 v v)))
          = dot2 v v * (inversesqrt (dot2 v v) * inversesqrt (dot2 v v))"
    by (simp add: dot2_def scale2_def algebra_simps)
  also have "inversesqrt (dot2 v v) * inversesqrt (dot2 v v) = 1 / dot2 v v"
    using pos by (simp add: inversesqrt_def)
  finally show ?thesis using True pos by (simp add: safeNormalize_def Let_def)
next
  case False
  then show ?thesis by (simp add: safeNormalize_def Let_def dot2_def)
qed

lemma normalize3_unit_length:
  assumes "dot3 v v = 1"
  shows "normalize3 v = Some v"
  using assms by (cases v) (simp add: normalize3_def length3_def)

lemma normalize3_defined:
  assumes "0 < dot3 v v"
  shows "normalize3 v = Some (scale3 v (1 / length3 v))"
  using assms by (simp add: normalize3_def length3_def)

lemma bind_const_Some:
  assumes "m \<noteq> None"
  shows "(m \<bind> (\<lambda>_. Some x)) = Some x"
  using assms by (cases m) simp_all

lemma applyWindSway_defined:
  assumes "uWindStrength u = 0"
  shows "applyWindSway u p1 p2 p3 windStrength01 height perBladeHash01 t worldXZ = Some (p1, p2, p3)"
proof -
  obtain a b where n: "safeNormalize (uWindDir u) = (a, b)" by (cases "safeNormalize (uWindDir u)")
  with safeNormalize_unit [of "uWindDir u"] have ab: "a * a + b * b = 1" by (simp add: dot2_def)
  have W: "getWindDirection u = (a, 0, b)" by (simp add: getWindDirection_def n)
  have "dot3 (- b, 0, a) (- b, 0, a) = 1" using ab by (simp add: add.commute)
  then have CW: "normalize3 (- b, 0, a) = Some (- b, 0, a)" by (rule normalize3_unit_length)
  have dir: "normalize3 (add3 (a, 0, b) (scale3 (- b, 0, a) c)) \<noteq> None" for c
  proof -
    have "dot3 (add3 (a, 0, b) (scale3 (- b, 0, a) c)) (add3 (a, 0, b) (scale3 (- b, 0, a) c))
            = (a * a + b * b) * (1 + c * c)"
      by (simp add: algebra_simps)
    also have "\<dots> = 1 + c * c" by (simp add: ab)
    finally have "dot3 (add3 (a, 0, b) (scale3 (- b, 0, a) c)) (add3 (a, 0, b) (scale3 (- b, 0, a) c)) > 0"
      by (simp add: add_pos_nonneg)
    then show ?thesis by (simp only: normalize3_defined option.distinct not_False_eq_True)
  qed
  show ?thesis
    unfolding applyWindSway_def W Let_def
    by (simp add: CW assms bind_const_Some dir del: add3.simps scale3.simps)
qed














lemma hazardGap_range: "0 < hazardGap" "hazardGap \<le> 1"
  using hash2_range [of "(0, - 1)"] by (simp_all add: hazardGap_def)

lemma candidate_offsets:
  assumes "k < 9"
  shows "\<exists>i j :: int. - 1 \<le> i \<and> i \<le> 1 \<and> - 1 \<le> j \<and> j \<le> 1
           \<and> clumpCandidates (0, 0) ! k = (of_int i, of_int j)"
proof -
  have "clumpCandidates (0, 0) ! k \<in> set (clumpCandidates (0, 0))"
    using assms by (intro nth_mem) (simp add: clumpCandidates_def neighborOffsets_def)
  then obtain ji where ji: "ji \<in> set neighborOffsets"
    and n: "clumpCandidates (0, 0) ! k = (\<lambda>(j, i). add2 (0, 0) (of_int i, of_int j)) ji"
    unfolding clumpCandidates_def set_map by (rule imageE)
  obtain j i where "ji = (j, i)" by (cases ji)
  with ji n have "- 1 \<le> i \<and> i \<le> 1 \<and> - 1 \<le> j \<and> j \<le> 1"
    and "clumpCandidates (0, 0) ! k = (of_int i, of_int j)"
    by (auto simp add: neighborOffsets_def add2_def)
  then show ?thesis by blast
qed

lemma square_gt:
  fixes a b :: real
  assumes "0 \<le> a" "a < b"
  shows "a * a < b * b"
  using assms by (simp add: mult_strict_mono')

lemma less_add_square:
  fixes x y z :: real
  shows "x < y \<Longrightarrow> x < y + z * z" "x < y \<Longrightarrow> x < z * z + y"
proof -
  have "0 \<le> z * z" by simp
  then show "x < y \<Longrightarrow> x < y + z * z" "x < y \<Longrightarrow> x < z * z + y" by linarith+
qed

lemma other_seed_farther:
  fixes i j :: int
  assumes a: "0 < a" "a < hazardGap" "a < 1 / 2"
    and ij: "- 1 \<le> i" "i \<le> 1" "- 1 \<le> j" "j \<le> 1" "(i, j) \<noteq> (0, 0)"
  shows "a * a < seedDist2 (a, 0) (of_int i, of_int j)"
proof -
  define hx where "hx = fst (hash2 (of_int i, of_int j))"
  define hy where "hy = snd (hash2 (of_int i, of_int j))"
  have h: "0 \<le> hx" "hx < 1" "0 \<le> hy" "hy < 1"
    unfolding hx_def hy_def by (rule hash2_range)+
  have d: "seedDist2 (a, 0) (of_int i, of_int j)
      = (of_int i + hx - a) * (of_int i + hx - a) + (of_int j + hy) * (of_int j + hy)"
    by (simp add: seedDist2_def seedPoint_def add2_def sub2_def dot2_def hx_def hy_def algebra_simps)
  have "i = 1 \<or> i = - 1 \<or> (i = 0 \<and> j = 1) \<or> (i = 0 \<and> j = - 1)"
    using ij by auto
  then consider "i = 1" | "i = - 1" | "i = 0" "j = 1" | "i = 0" "j = - 1"
    by blast
  then show ?thesis
  proof cases
    case 1
    have "a < 1 + hx - a" using a h by linarith
    then have "a * a < (1 + hx - a) * (1 + hx - a)" using a by (intro square_gt) simp_all
    then show ?thesis unfolding d using 1 by (simp add: less_add_square)
  next
    case 2
    have "a < a + 1 - hx" using h by linarith
    then have "a * a < (a + 1 - hx) * (a + 1 - hx)" using a by (intro square_gt) simp_all
    also have "\<dots> = (- 1 + hx - a) * (- 1 + hx - a)" by (simp add: algebra_simps)
    finally show ?thesis unfolding d using 2 by (simp add: less_add_square)
  next
    case 3
    have "a < 1 + hy" using a h by linarith
    then have "a * a < (1 + hy) * (1 + hy)" using a by (intro square_gt) simp_all
    then show ?thesis unfolding d using 3 by (simp add: less_add_square)
  next
    case 4
    then have "hy = snd (hash2 (0, - 1))" by (simp add: hy_def)
    then have "a < 1 - hy" using a by (simp add: hazardGap_def)
    then have "a * a < (1 - hy) * (1 - hy)" using a by (intro square_gt) simp_all
    also have "\<dots> = (- 1 + hy) * (- 1 + hy)" by (simp add: algebra_simps)
    finally show ?thesis unfolding d using 4 by (simp add: less_add_square)
  qed
qed

lemma getClumpInfo_near_origin:
  assumes a: "0 < a" "a < hazardGap" "a < 1 / 2"
  shows "snd (getClumpInfo 1 (a, 0)) = (0, 0)"
proof -
  have "\<lfloor>a\<rfloor> = 0" using a by (simp add: floor_eq_iff)
  then have cell: "div2 (a, 0) 1 = (a, 0)" "floor2 (a, 0) = (0, 0)"
    by (simp_all add: div2_def floor2_def)
  obtain k where k: "k < 9"
    "fold (\<lambda>j st. fold (\<lambda>i st'. clumpStep (a, 0) (floor2 (a, 0)) j i st') [-1, 0, 1] st) [-1, 0, 1]
       (1000000000, (0, 0))
     = (seedDist2 (a, 0) (clumpCandidates (floor2 (a, 0)) ! k), clumpCandidates (floor2 (a, 0)) ! k)"
    "\<forall>l<9. seedDist2 (a, 0) (clumpCandidates (floor2 (a, 0)) ! k)
             \<le> seedDist2 (a, 0) (clumpCandidates (floor2 (a, 0)) ! l)"
    by (rule clump_loop_result [of "(a, 0)"])
  define best where "best = clumpCandidates (0, 0) ! k"
  have c4: "clumpCandidates (0, 0) ! 4 = (0, 0)"
    by (simp add: clumpCandidates_def neighborOffsets_def add2_def)
  have "seedDist2 (a, 0) (0, 0) = a * a"
    by (simp add: seedDist2_def seedPoint_def hash2_origin add2_def sub2_def dot2_def)
  moreover from k(3) have "seedDist2 (a, 0) best \<le> seedDist2 (a, 0) (clumpCandidates (0, 0) ! 4)"
    unfolding best_def cell by simp
  ultimately have le: "seedDist2 (a, 0) best \<le> a * a" by (simp add: c4)
  from candidate_offsets [OF k(1)] obtain i j :: int
    where ij: "- 1 \<le> i" "i \<le> 1" "- 1 \<le> j" "j \<le> 1" "best = (of_int i, of_int j)"
    unfolding best_def by blast
  have "(i, j) = (0, 0)"
  proof (rule ccontr)
    assume "(i, j) \<noteq> (0, 0)"
    from other_seed_farther [OF a ij(1-4) this] le show False by (simp add: ij(5))
  qed
  then have b: "best = (0, 0)" using ij(5) by simp
  show ?thesis
    unfolding getClumpInfo_def Let_def cell using k(2) b
    unfolding cell best_def by simp
qed

lemma hash11_small:
  assumes "0 < y" "y \<le> 1 / 100000"
  shows "0 < fract (sin y * 43758.5453123)"
proof -
  have "0 < sin y" using assms by (intro sin_gt_zero_02) simp_all
  moreover have "sin y \<le> y" using assms by (intro sin_x_le_x) simp
  ultimately have s: "0 < sin y * 43758.5453123" "sin y * 43758.5453123 < 1"
    using assms by simp_all
  then have "\<lfloor>sin y * 43758.5453123\<rfloor> = 0" by (simp add: floor_eq_iff)
  then show ?thesis using s unfolding fract_def by simp
qed


lemma computeFn_height:
  assumes "uBladeRandomness u = (0, 0, 0)"
  shows "fst (computeFn u (x, y, z))
       = mix (uBladeHeightMin u) (uBladeHeightMax u) (hash11 (dot2 (scale2 (x, z) 11) (127.1, 311.7)))"
  by (simp add: computeFn_def bladeShape_def clumpBaseParams_def hash21_def assms mix_def Let_def)

text \<open>
  C10. The jitter seed of a grid cell is \<open>(x * 7919 + z * 7919) * 0.0001\<close>, so it depends on
  \<open>x + z\<close> only: two cells with the same coordinate sum, in particular a cell and its
  transpose, get the same pair of jitter offsets.
\<close>

theorem jitter_depends_on_sum:
  "x + z = x' + z' \<Longrightarrow>
     jitterSeed x z = jitterSeed x' z' \<and> jitterX x z = jitterX x' z' \<and> jitterZ x z = jitterZ x' z'
     \<and> jitterX x z = jitterX z x \<and> jitterZ x z = jitterZ z x"
proof -
  assume eq: "x + z = x' + z'"
  have s: "jitterSeed a b = real (a + b) * 7919 * 0.0001" for a b
    by (simp add: jitterSeed_def algebra_simps)
  have "jitterSeed x z = jitterSeed x' z'" using eq by (simp only: s)
  moreover have "jitterSeed x z = jitterSeed z x" by (simp add: s add.commute)
  ultimately show ?thesis by (simp add: jitterX_def jitterZ_def)
qed

theorem jitter_depends_on_sum_witness:
  "(3::nat) + 5 = 6 + 2 \<and> jitterX 3 5 = jitterX 6 2 \<and> jitterZ 3 5 = jitterZ 6 2
     \<and> jitterX 3 5 = jitterX 5 3 \<and> jitterZ 3 5 = jitterZ 5 3"
  using jitter_depends_on_sum [of 3 5 6 2] by simp

text \<open>
  C3. For a clump radius above zero the presence is non-increasing in the distance, lies in
  \<open>[0, 1]\<close> for every distance from zero on, is 1 at distance 0 and is 0 from the clump radius on.
\<close>

theorem presence_falloff:
  assumes "0 < radius"
  shows "(\<forall>d d'. d \<le> d' \<longrightarrow> presence radius d' \<le> presence radius d)
       \<and> (\<forall>d. 0 \<le> d \<longrightarrow> 0 \<le> presence radius d \<and> presence radius d \<le> 1)
       \<and> presence radius 0 = 1
       \<and> (\<forall>d. radius \<le> d \<longrightarrow> presence radius d = 0)"
proof (intro conjI allI impI)
  fix d d' :: real
  assume le: "d \<le> d'"
  define t where "t = clamp ((clamp (d / radius) 0 1 - 0.7) / (1 - 0.7)) 0 1"
  define t' where "t' = clamp ((clamp (d' / radius) 0 1 - 0.7) / (1 - 0.7)) 0 1"
  have "d / radius \<le> d' / radius"
    using le assms by (simp add: divide_right_mono)
  then have "clamp (d / radius) 0 1 \<le> clamp (d' / radius) 0 1"
    by (rule clamp_mono)
  then have "(clamp (d / radius) 0 1 - 0.7) / (1 - 0.7)
             \<le> (clamp (d' / radius) 0 1 - 0.7) / (1 - 0.7)"
    by (simp add: divide_right_mono)
  then have "t \<le> t'" unfolding t_def t'_def by (rule clamp_mono)
  moreover have "0 \<le> t" "t' \<le> 1" unfolding t_def t'_def by (rule clamp_unit_range)+
  ultimately have "t * t * (3 - 2 * t) \<le> t' * t' * (3 - 2 * t')"
    by (intro smoothstep_poly_mono)
  then show "presence radius d' \<le> presence radius d"
    by (simp add: presence_def Let_def t_def t'_def)
next
  fix d :: real
  define t where "t = clamp ((clamp (d / radius) 0 1 - 0.7) / (1 - 0.7)) 0 1"
  have "0 \<le> t" "t \<le> 1" unfolding t_def by (rule clamp_unit_range)+
  then have "0 \<le> t * t * (3 - 2 * t)" "t * t * (3 - 2 * t) \<le> 1"
    by (rule smoothstep_poly_range)+
  then show "0 \<le> presence radius d" "presence radius d \<le> 1"
    by (simp_all add: presence_def Let_def t_def)
next
  show "presence radius 0 = 1"
    by (simp add: presence_def clamp_def)
next
  fix d :: real
  assume "radius \<le> d"
  then have "1 \<le> d / radius" using assms by (simp add: le_divide_eq)
  then have "clamp (d / radius) 0 1 = 1" by (simp add: clamp_def)
  then show "presence radius d = 0"
    by (simp add: presence_def clamp_def)
qed

theorem presence_falloff_witness:
  "presence 1.5 0 = 1 \<and> presence 1.5 2 = 0 \<and> presence 1.5 2 \<le> presence 1.5 1"
proof -
  have h: "(0::real) < 1.5" by simp
  from presence_falloff [OF h] show ?thesis by simp
qed

text \<open>
  C1. For every instance index \<open>k\<close> below \<open>g * g\<close>, the instance id stored for \<open>k\<close> addresses
  the texel of column \<open>k mod g\<close> and row \<open>k div g\<close>, and the position texture holds there the
  position that the layout generator stored as \<open>instanceOffset\<close> of instance \<open>k\<close>: both are the
  jittered position of the grid cell \<open>x = k div g\<close>, \<open>z = k mod g\<close>.
\<close>

theorem index_alignment:
  assumes "0 < g" "k < g * g"
  shows "texelCoord (instanceIds (createGrassGeometry g p) ! k) (real g, real g)
           = (int (k mod g), int (k div g))
       \<and> texelFetch (createPositionTexture g p) g g
           (texelCoord (instanceIds (createGrassGeometry g p) ! k) (real g, real g))
           = Some (bladePx g p (k div g) (k mod g), 0, bladePz g p (k div g) (k mod g), 0)
       \<and> instanceOffsetAttr (createGrassGeometry g p) k
           = (bladePx g p (k div g) (k mod g), 0, bladePz g p (k div g) (k mod g))"
proof -
  from createGrassGeometry_inv [of g p] assms(2)
  have geo: "instanceIds (createGrassGeometry g p) ! k = real k"
    "offsets (createGrassGeometry g p) ! (3 * k) = bladePx g p (k div g) (k mod g)"
    "offsets (createGrassGeometry g p) ! (3 * k + 1) = 0"
    "offsets (createGrassGeometry g p) ! (3 * k + 2) = bladePz g p (k div g) (k mod g)"
    by (simp_all add: geomInv_def)
  from createPositionTexture_inv [of g p] assms(2)
  have tex: "createPositionTexture g p ! (4 * k) = bladePx g p (k div g) (k mod g)"
    "createPositionTexture g p ! (4 * k + 1) = 0"
    "createPositionTexture g p ! (4 * k + 2) = bladePz g p (k div g) (k mod g)"
    "createPositionTexture g p ! (4 * k + 3) = 0"
    by (simp_all add: texInv_def createPositionTexture_def)
  have c: "texelCoord (real k) (real g, real g) = (int (k mod g), int (k div g))"
    using assms(1) by (rule texelCoord_grid)
  have lt: "k div g < g" using assms by (simp add: less_mult_imp_div_less)
  have idx: "k div g * g + k mod g = k" by simp
  have f: "texelFetch (createPositionTexture g p) g g (int (k mod g), int (k div g))
          = Some (bladePx g p (k div g) (k mod g), 0, bladePz g p (k div g) (k mod g), 0)"
    using assms(1) lt tex by (simp add: texelFetch_def Let_def idx)
  have o: "instanceOffsetAttr (createGrassGeometry g p) k
           = (bladePx g p (k div g) (k mod g), 0, bladePz g p (k div g) (k mod g))"
    unfolding instanceOffsetAttr_def geo by (rule refl)
  show ?thesis unfolding geo(1) c using f o by (intro conjI) simp_all
qed

theorem index_alignment_witness:
  "texelFetch (createPositionTexture 256 8) 256 256
       (texelCoord (instanceIds (createGrassGeometry 256 8) ! 1000) (256, 256))
     = Some (bladePx 256 8 3 232, 0, bladePz 256 8 3 232, 0)
   \<and> instanceOffsetAttr (createGrassGeometry 256 8) 1000 = (bladePx 256 8 3 232, 0, bladePz 256 8 3 232)"
proof -
  have h: "(0::nat) < 256" "(1000::nat) < 256 * 256" by simp_all
  have e: "(1000::nat) div 256 = 3" "(1000::nat) mod 256 = 232" by simp_all
  from index_alignment [OF h, of 8] show ?thesis unfolding e by (elim conjE) simp
qed

text \<open>
  C2. For a clump size above zero, \<open>getClumpInfo\<close> returns the id of one of the nine cells
  around the position's cell whose seed is nearest to the position, the first such cell in
  the iteration order (rows \<open>j\<close> outside, columns \<open>i\<close> inside) when several are equally near.
  Every cell's seed lies inside the cell, and the distance returned is the Euclidean
  distance, in world units, from the position to the winning seed.
\<close>

theorem getClumpInfo_nearest_seed:
  assumes "0 < csize"
  shows "\<exists>k<9. let cell = div2 worldXZ csize;
                   cands = clumpCandidates (floor2 cell);
                   best = cands ! k
               in getClumpInfo csize worldXZ
                    = (sqrt (seedDist2 cell best) * csize, fst best, snd best)
                \<and> (\<forall>l<9. seedDist2 cell best \<le> seedDist2 cell (cands ! l))
                \<and> (\<forall>l<k. seedDist2 cell best < seedDist2 cell (cands ! l))
                \<and> (\<forall>l<9. fst (cands ! l) \<le> fst (seedPoint (cands ! l))
                         \<and> fst (seedPoint (cands ! l)) < fst (cands ! l) + 1
                         \<and> snd (cands ! l) \<le> snd (seedPoint (cands ! l))
                         \<and> snd (seedPoint (cands ! l)) < snd (cands ! l) + 1)
                \<and> sqrt (seedDist2 cell best) * csize
                    = length2 (sub2 worldXZ (scale2 (seedPoint best) csize))"
proof -
  let ?cell = "div2 worldXZ csize"
  obtain k where k: "k < 9"
    "fold (\<lambda>j st. fold (\<lambda>i st'. clumpStep ?cell (floor2 ?cell) j i st') [-1, 0, 1] st) [-1, 0, 1]
       (1000000000, (0, 0))
     = (seedDist2 ?cell (clumpCandidates (floor2 ?cell) ! k), clumpCandidates (floor2 ?cell) ! k)"
    "\<forall>l<9. seedDist2 ?cell (clumpCandidates (floor2 ?cell) ! k)
             \<le> seedDist2 ?cell (clumpCandidates (floor2 ?cell) ! l)"
    "\<forall>l<k. seedDist2 ?cell (clumpCandidates (floor2 ?cell) ! k)
             < seedDist2 ?cell (clumpCandidates (floor2 ?cell) ! l)"
    by (rule clump_loop_result)
  have "getClumpInfo csize worldXZ
          = (sqrt (seedDist2 ?cell (clumpCandidates (floor2 ?cell) ! k)) * csize,
             fst (clumpCandidates (floor2 ?cell) ! k), snd (clumpCandidates (floor2 ?cell) ! k))"
    unfolding getClumpInfo_def Let_def k(2) by simp
  then show ?thesis
    using k(1,3,4) world_distance [OF assms] seedPoint_in_cell
    by (intro exI [of _ k]) (simp add: Let_def)
qed

theorem getClumpInfo_nearest_seed_witness:
  "(0::real) < 0.8 \<and>
   (\<exists>k<9. fst (getClumpInfo 0.8 (1, 2))
             = length2 (sub2 (1, 2) (scale2 (seedPoint (clumpCandidates (floor2 (div2 (1, 2) 0.8)) ! k)) 0.8))
          \<and> snd (getClumpInfo 0.8 (1, 2)) = clumpCandidates (floor2 (div2 (1, 2) 0.8)) ! k)"
proof -
  have h: "(0::real) < 0.8" by simp
  from getClumpInfo_nearest_seed [OF h, of "(1, 2)"] show ?thesis
    unfolding Let_def using h by auto
qed

text \<open>
  C4. With the wind strength uniform at zero, the wind step returns the stored base angle as
  facing angle and a zero push, the control points are those of the unbent curve (so the
  spine is the spine of that curve), and the output of \<open>main\<close> does not depend on the time:
  it is the same at 0 and at 10 seconds, and at any two times. In the cubic variant
  \<open>applyWindPush\<close> and \<open>applyWindSway\<close> leave the three control points unchanged.
\<close>

theorem still_air:
  assumes "uWindStrength u = 0"
  shows "bladeFacing fbm2 u worldXZ baseAngle
           = (sampleWind fbm2 u worldXZ, 0, baseAngle, (- sin baseAngle, cos baseAngle))
       \<and> windControlPoints u worldXZ t height bend bladeType (sampleWind fbm2 u worldXZ) 0
             (- sin baseAngle, cos baseAngle)
           = ((0, 0, 0), bladeP1 bladeType height bend, (0, height, 0))
       \<and> vertexMain fbm2 rotate2D (u\<lparr>uTime := 0\<rparr>) bt ct a
           = vertexMain fbm2 rotate2D (u\<lparr>uTime := 10\<rparr>) bt ct a
       \<and> (\<forall>time time'. vertexMain fbm2 rotate2D (u\<lparr>uTime := time\<rparr>) bt ct a
                        = vertexMain fbm2 rotate2D (u\<lparr>uTime := time'\<rparr>) bt ct a)
       \<and> applyWindPush u p1 p2 p3 windStrength01 height = (p1, p2, p3)
       \<and> applyWindSway u p1 p2 p3 windStrength01 height perBladeHash01 t worldXZ = Some (p1, p2, p3)"
proof (intro conjI allI)
  show "applyWindPush u p1 p2 p3 windStrength01 height = (p1, p2, p3)"
    by (simp add: applyWindPush_def assms Let_def)
qed (simp_all only: bladeFacing_still [OF assms] windControlPoints_still [OF assms]
      vertexMain_still [OF assms] applyWindSway_defined [OF assms])

theorem still_air_witness:
  "uWindStrength (sampleUniforms\<lparr>uWindStrength := 0\<rparr>) = 0
   \<and> vertexMain constantWind plainRotate (sampleUniforms\<lparr>uWindStrength := 0, uTime := 0\<rparr>)
         flatBentBlade sampleClumpData rootVertex
     = vertexMain constantWind plainRotate (sampleUniforms\<lparr>uWindStrength := 0, uTime := 10\<rparr>)
         flatBentBlade sampleClumpData rootVertex
   \<and> applyWindPush (sampleUniforms\<lparr>uWindStrength := 0\<rparr>) (0, 0.2, 0.1) (0, 0.4, 0.2) (0, 0.6, 0) 0.5 0.6
     = ((0, 0.2, 0.1), (0, 0.4, 0.2), (0, 0.6, 0))"
proof -
  have h: "uWindStrength (sampleUniforms\<lparr>uWindStrength := 0\<rparr>) = 0" by simp
  from still_air [OF h, of constantWind "(0, 0)" 0 0 "0.6" 0 0 plainRotate flatBentBlade sampleClumpData
      rootVertex "(0, 0.2, 0.1)" "(0, 0.4, 0.2)" "(0, 0.6, 0)" "0.5" 0] h
  show ?thesis by (elim conjE) simp
qed

text \<open>
  C5, as stated, fails: the shaders never normalise the facing angle. For the blade at the
  world origin the stored base angle is \<open>-0.725\<close>, outside \<open>[0, 2 pi)\<close>.
\<close>

theorem facing_angle_counterexample:
  "\<not> (0 \<le> snd (snd (snd (snd (computeMain defaultCompute originTexture (0.5, 0.5)))))
      \<and> snd (snd (snd (snd (computeMain defaultCompute originTexture (0.5, 0.5))))) < 2 * pi)"
  unfolding baseAngle_at_origin by simp

text \<open>
  C5, amended. The stored base angle lies strictly between \<open>-pi - 0.725\<close> and
  \<open>pi + 0.725\<close>, and with the wind strength at zero the deformer's facing angle is the
  stored base angle, unchanged.
\<close>

theorem facing_angle_bounds:
  "- pi - 0.725 < snd (snd (snd (snd (computeMain u uPositions fragCoord))))
   \<and> snd (snd (snd (snd (computeMain u uPositions fragCoord)))) < pi + 0.725
   \<and> (uWindStrength v = 0 \<longrightarrow>
        fst (snd (snd (bladeFacing fbm2 v worldXZ baseAngle))) = baseAngle)"
proof -
  have b: "- pi - 29 / 40 < baseAngleOf w c t \<and> baseAngleOf w c t < pi + 29 / 40" for w c t
  proof -
    define h1 where "h1 = hash11 (dot2 w (37.0, 17.0))"
    define h2 where "h2 = hash11 (dot2 c (9.7, 3.1))"
    define a where "a = atan2 (snd t) (fst t)"
    have "0 \<le> h1" "h1 < 1" "0 \<le> h2" "h2 < 1" unfolding h1_def h2_def by (rule hash11_range)+
    moreover have "- pi < a" "a \<le> pi" unfolding a_def by (rule atan2_range)+
    moreover have "baseAngleOf w c t = a + 6 / 5 * h1 + h2 / 4 - 29 / 40"
      by (simp add: baseAngleOf_def Let_def h1_def h2_def a_def field_simps)
    ultimately show ?thesis by linarith
  qed
  show ?thesis
    by (simp add: computeMain_def Let_def b bladeFacing_still split: prod.splits)
qed

theorem facing_angle_bounds_witness:
  "uWindStrength (sampleUniforms\<lparr>uWindStrength := 0\<rparr>) = 0
   \<and> fst (snd (snd (bladeFacing constantWind (sampleUniforms\<lparr>uWindStrength := 0\<rparr>) (0, 0) (- 0.725))))
       = - 0.725
   \<and> - pi - 0.725 < snd (snd (snd (snd (computeMain defaultCompute originTexture (0.5, 0.5)))))"
proof -
  have h: "uWindStrength (sampleUniforms\<lparr>uWindStrength := 0\<rparr>) = 0" by simp
  from facing_angle_bounds [of defaultCompute originTexture "(0.5, 0.5)"
      "sampleUniforms\<lparr>uWindStrength := 0\<rparr>" constantWind "(0, 0)" "- 0.725"] h
  show ?thesis by blast
qed







text \<open>
  C8, as stated, fails. \<open>computeFn\<close> takes the blade's own position as its cell id, so
  two blades of one clump are not given the same clump base values: with a blade
  randomness of zero, the blade at the world origin and the blade next to it belong to the
  clump of cell \<open>(0, 0)\<close> and get different heights.
\<close>

theorem zero_randomness_counterexample:
  "uBladeRandomness sampleGrassUniforms = (0, 0, 0)
   \<and> xz3 nearOriginBlade \<noteq> xz3 originBlade
   \<and> snd (getClumpInfo 1 (xz3 nearOriginBlade)) = snd (getClumpInfo 1 (xz3 originBlade))
   \<and> fst (computeFn sampleGrassUniforms nearOriginBlade) \<noteq> fst (computeFn sampleGrassUniforms originBlade)"
proof -
  define a where "a = min (hazardGap / 2) (1 / 10000000000)"
  have a: "0 < a" "a < hazardGap" "a < 1 / 2" "a \<le> 1 / 10000000000"
    using hazardGap_range by (simp_all add: a_def min_def)
  have r: "uBladeRandomness sampleGrassUniforms = (0, 0, 0)" by (simp add: sampleGrassUniforms_def)
  have n: "nearOriginBlade = (a, 0, 0)" by (simp add: nearOriginBlade_def a_def)
  have c1: "snd (getClumpInfo 1 (a, 0)) = (0, 0)" using a(1-3) by (rule getClumpInfo_near_origin)
  have c0: "snd (getClumpInfo 1 (0, 0)) = (0, 0)" by (simp add: getClumpInfo_origin)
  have arg: "dot2 (scale2 (a, 0) 11) (127.1, 311.7) = a * 11 * 127.1"
    "dot2 (scale2 (0, 0) 11) (127.1, 311.7) = 0"
    by (simp_all add: dot2_def scale2_def)
  define h where "h = hash11 (a * 11 * 127.1)"
  have "0 < a * 11 * 127.1 * 37" "a * 11 * 127.1 * 37 \<le> 1 / 100000" using a by simp_all
  then have "0 < fract (sin (a * 11 * 127.1 * 37) * 43758.5453123)" by (rule hash11_small)
  then have h: "0 < h" by (simp add: h_def hash11_def)
  have "fst (computeFn sampleGrassUniforms (a, 0, 0)) = mix 0.4 0.8 h"
    unfolding computeFn_height [OF r] arg h_def by (simp add: sampleGrassUniforms_def)
  moreover have "fst (computeFn sampleGrassUniforms (0, 0, 0)) = mix 0.4 0.8 0"
    unfolding computeFn_height [OF r] arg by (simp add: sampleGrassUniforms_def hash11_zero)
  moreover have "mix 0.4 0.8 h \<noteq> mix 0.4 0.8 0"
  proof -
    have "mix 0.4 0.8 h = 2 / 5 + 2 / 5 * h" "mix 0.4 0.8 0 = 2 / 5"
      by (simp_all add: mix_def field_simps)
    then show ?thesis using h by simp
  qed
  ultimately have d: "fst (computeFn sampleGrassUniforms (a, 0, 0)) \<noteq> fst (computeFn sampleGrassUniforms (0, 0, 0))"
    by simp
  show ?thesis
    unfolding n originBlade_def using r a(1) c0 c1 d by simp
qed

text \<open>
  C8, amended. With a blade randomness of zero the blade parameters are the clump base
  values at the cell id that \<open>computeFn\<close> gives the blade, which is the blade's own
  position \<open>xz\<close>; two blades at one position \<open>xz\<close> get the same parameters.
\<close>

theorem zero_randomness_collapse:
  assumes "uBladeRandomness u = (0, 0, 0)"
  shows "computeFn u posA = clumpBaseParams u (xz3 posA)
       \<and> (xz3 posA = xz3 posB \<longrightarrow> computeFn u posA = computeFn u posB)"
proof -
  have "bladeShape u c s = clumpBaseParams u c" for c s
    by (simp add: bladeShape_def assms mix_def Let_def split: prod.splits)
  then show ?thesis by (simp add: computeFn_def Let_def)
qed

theorem zero_randomness_collapse_witness:
  "uBladeRandomness sampleGrassUniforms = (0, 0, 0)
   \<and> computeFn sampleGrassUniforms (1, 0, 2) = clumpBaseParams sampleGrassUniforms (1, 2)
   \<and> computeFn sampleGrassUniforms (1, 0, 2) = computeFn sampleGrassUniforms (1, 5, 2)"
proof -
  have h: "uBladeRandomness sampleGrassUniforms = (0, 0, 0)" by (simp add: sampleGrassUniforms_def)
  from zero_randomness_collapse [OF h, of "(1, 0, 2)" "(1, 5, 2)"] h
  show ?thesis by (elim conjE) simp
qed

text \<open>
  C9. The output of the compute shader's \<open>main\<close> depends on the fragment and on the position
  texture through the sampled world position \<open>xz\<close> only: two fragments whose samples agree
  in \<open>x\<close> and \<open>z\<close> get the same two output texels, under the same uniforms.
\<close>

theorem synthesis_pure:
  assumes "texelXZ (texA (fst fragA / fst (uResolution u), snd fragA / snd (uResolution u)))
         = texelXZ (texB (fst fragB / fst (uResolution u), snd fragB / snd (uResolution u)))"
  shows "computeMain u texA fragA = computeMain u texB fragB"
  by (subst computeMain_of_position, subst (2) computeMain_of_position) (simp only: assms)

theorem synthesis_pure_witness:
  "texelXZ (originTexture (fst (0.5 :: real, 0.5 :: real) / fst (uResolution defaultCompute),
                           snd (0.5 :: real, 0.5 :: real) / snd (uResolution defaultCompute)))
     = texelXZ (liftedTexture (fst (10.5 :: real, 3.5 :: real) / fst (uResolution defaultCompute),
                               snd (10.5 :: real, 3.5 :: real) / snd (uResolution defaultCompute)))
   \<and> computeMain defaultCompute originTexture (0.5, 0.5) = computeMain defaultCompute liftedTexture (10.5, 3.5)"
proof -
  have h: "texelXZ (originTexture (fst (0.5 :: real, 0.5 :: real) / fst (uResolution defaultCompute),
                           snd (0.5 :: real, 0.5 :: real) / snd (uResolution defaultCompute)))
     = texelXZ (liftedTexture (fst (10.5 :: real, 3.5 :: real) / fst (uResolution defaultCompute),
                               snd (10.5 :: real, 3.5 :: real) / snd (uResolution defaultCompute)))"
    by (simp add: texelXZ_def originTexture_def liftedTexture_def)
  from synthesis_pure [of originTexture "(0.5, 0.5)" defaultCompute liftedTexture "(10.5, 3.5)", OF h] h
  show ?thesis by blast
qed

end
